theory Spec2Isabelle
  imports Complex_Main "HOL-Library.Multiset" "HOL-Library.Log_Nat"
begin

section \<open>Exceptions and sequencing\<close>

text \<open>
  The Python exceptions that the two source files can raise, directly or through
  numpy, netCDF4, datetime and torch. A computation that may raise returns
  \<open>exn + 'a\<close>, with \<open>Inl\<close> for the exception.
\<close>

datatype exn =
    ValueError
  | IndexError
  | TypeError
  | ZeroDivisionError
  | OverflowError
  | RuntimeError
  | AttributeError
  | FileNotFoundError

definition bind_exn :: "exn + 'a \<Rightarrow> ('a \<Rightarrow> exn + 'b) \<Rightarrow> exn + 'b" where
  "bind_exn m f = (case m of Inl e \<Rightarrow> Inl e | Inr v \<Rightarrow> f v)"

section \<open>dataset.py\<close>

subsection \<open>Python and numpy helpers\<close>

text \<open>
  A slice bound \<open>i\<close> on a sequence of length \<open>n\<close>: a negative bound counts from the
  end, and every bound is clipped to \<open>0..n\<close>.
\<close>

definition slice_bound :: "nat \<Rightarrow> int \<Rightarrow> nat" where
  "slice_bound n i = (if i < 0 then nat (int n + i) else min (nat i) n)"

text \<open>\<open>xs[lo:hi]\<close>, where \<open>None\<close> is an omitted bound.\<close>

definition py_slice :: "'a list \<Rightarrow> int option \<Rightarrow> int option \<Rightarrow> 'a list" where
  "py_slice xs lo hi =
     (let n = length xs;
          l = (case lo of None \<Rightarrow> 0 | Some i \<Rightarrow> slice_bound n i);
          h = (case hi of None \<Rightarrow> n | Some i \<Rightarrow> slice_bound n i)
      in drop l (take h xs))"

text \<open>
  Python floats are IEEE doubles. A finite double is kept as the real number it denotes:
  a multiple of \<open>2 ^ (k - 1074)\<close> with a significand of at most 53 bits, below
  \<open>2 ^ 1024\<close> in absolute value.
\<close>

definition mantissa_bits :: nat where "mantissa_bits = 53"
definition min_exponent :: nat where "min_exponent = 1074"
definition max_exponent :: nat where "max_exponent = 1024"

text \<open>The integer nearest to a real, a tie going to the even one.\<close>

definition round_half_even :: "real \<Rightarrow> int" where
  "round_half_even x =
     (let f = \<lfloor>x\<rfloor> in
      if x - real_of_int f < 1 / 2 then f
      else if 1 / 2 < x - real_of_int f then f + 1
      else if even f then f else f + 1)"

text \<open>
  The double nearest to a real, which is how every float operation rounds its exact
  result: the spacing of the doubles around \<open>x\<close> is \<open>2 ^ (k - 1074)\<close>, where \<open>k\<close>
  counts the bits of \<open>\<bar>x\<bar> * 2 ^ 1074\<close> beyond the 53 of the significand. \<open>None\<close> is an
  infinity: the rounded value is outside the range of the finite doubles.
\<close>

definition round_double :: "real \<Rightarrow> real option" where
  "round_double x =
     (let k = nat (bitlen \<lfloor>\<bar>x\<bar> * 2 ^ min_exponent\<rfloor> - int mantissa_bits);
          r = real_of_int (round_half_even (x * 2 ^ min_exponent / 2 ^ k)) * 2 ^ k / 2 ^ min_exponent
      in if 2 ^ max_exponent \<le> \<bar>r\<bar> then None else Some r)"

text \<open>
  The conversion of a Python int to a float, which \<open>float * int\<close> makes first: the
  nearest double, and OverflowError when the int is too large for one.
\<close>

definition float_of_int :: "int \<Rightarrow> exn + real" where
  "float_of_int n =
     (case round_double (real_of_int n) of None \<Rightarrow> Inl OverflowError | Some f \<Rightarrow> Inr f)"

text \<open>\<open>a * n\<close> for a finite float \<open>a\<close> and an int \<open>n\<close>: the rounded product.\<close>

definition float_mul_int :: "real \<Rightarrow> int \<Rightarrow> exn + real option" where
  "float_mul_int a n = bind_exn (float_of_int n) (\<lambda>b. Inr (round_double (a * b)))"

text \<open>
  \<open>int(r)\<close> on a float: truncation towards zero, and OverflowError on an infinity.
\<close>

definition py_int :: "real option \<Rightarrow> exn + int" where
  "py_int x =
     (case x of
        None \<Rightarrow> Inl OverflowError
      | Some r \<Rightarrow> Inr (if 0 \<le> r then \<lfloor>r\<rfloor> else \<lceil>r\<rceil>))"

text \<open>
  \<open>a[i]\<close> on a numpy array with an integer \<open>i\<close>: negative indices count from the
  end, anything out of range raises IndexError.
\<close>

definition np_item :: "'a list \<Rightarrow> int \<Rightarrow> exn + 'a" where
  "np_item xs i =
     (if - int (length xs) \<le> i \<and> i < 0 then Inr (xs ! nat (int (length xs) + i))
      else if 0 \<le> i \<and> i < int (length xs) then Inr (xs ! nat i)
      else Inl IndexError)"


text \<open>\<open>np.where(a == v)[0]\<close>: the positions of the entries equal to \<open>v\<close>, ascending.\<close>

definition np_where_eq :: "'a list \<Rightarrow> 'a \<Rightarrow> nat list" where
  "np_where_eq xs v = filter (\<lambda>i. xs ! i = v) [0..<length xs]"

text \<open>\<open>np.where(a == v)[0][0]\<close>: the first such position; IndexError when there is none.\<close>

definition np_where_first :: "'a list \<Rightarrow> 'a \<Rightarrow> exn + nat" where
  "np_where_first xs v = (case np_where_eq xs v of [] \<Rightarrow> Inl IndexError | i # _ \<Rightarrow> Inr i)"

subsection \<open>DownscalingDataset\<close>




subsection \<open>spliting_indices\<close>

text \<open>
  \<open>np.random.permutation(n)\<close> is the one source of randomness: its draw is the argument
  \<open>perm\<close>, a rearrangement of \<open>0, ..., n-1\<close>, which is empty when \<open>n\<close> is not
  positive. \<open>val_pct\<close> and \<open>test_pct\<close> are finite floats; the products
  \<open>val_pct * n\<close> and \<open>test_pct * n\<close> are float products, rounded before \<open>int\<close>
  truncates them.
\<close>

definition spliting_indices ::
  "nat list \<Rightarrow> int \<Rightarrow> real \<Rightarrow> real \<Rightarrow> exn + (nat list \<times> nat list \<times> nat list)" where
  "spliting_indices perm n val_pct test_pct =
     bind_exn (float_mul_int val_pct n) (\<lambda>val_product.
     bind_exn (py_int val_product) (\<lambda>n_val.
     bind_exn (float_mul_int test_pct n) (\<lambda>test_product.
     bind_exn (py_int test_product) (\<lambda>n_test.
       (let n_train = n - n_val - n_test
        in Inr (py_slice perm None (Some n_train),
                py_slice perm (Some n_train) (Some (n_train + n_val)),
                py_slice perm (Some (n_train + n_val)) None))))))"

subsection \<open>merge_out_data and make_clean_data\<close>

text \<open>
  The files read: \<open>download/cerra/si10-<year>.npy\<close>, \<open>download/cerra/datetime_<year>.npy\<close>
  and \<open>download/era5/<var>-2010_2020.nc\<close>.
\<close>

datatype path = Cerra_si10 int | Cerra_datetime int | Era5 string

text \<open>What the function does to the outside world, in order.\<close>

datatype event = Print string | PrintIndices nat nat | NpLoad path | NcDataset path

text \<open>
  The environment: the content of each file (\<open>None\<close> when it cannot be read), and what
  the method \<open>timestamp()\<close> gives for 1 January, 01:00, of a year as a naive local time.
  That depends on the time zone of the machine: it is either the epoch seconds, or the
  exception that the conversion raises when it leaves the range that \<open>datetime\<close> can
  represent, as it does for the year 1. \<open>'f\<close> is one high-resolution frame,
  \<open>'g\<close> one low-resolution frame of one variable.
\<close>

record ('f, 'g) env =
  cerra_si10 :: "int \<Rightarrow> 'f list option"
  cerra_datetime :: "int \<Rightarrow> real list option"
  era5_var :: "string \<Rightarrow> 'g list option"
  local_timestamp :: "int \<Rightarrow> exn + real"

text \<open>The body of the loop of \<open>merge_out_data\<close>, over the years that remain.\<close>

fun merge_loop ::
  "('f, 'g) env \<Rightarrow> int list \<Rightarrow> ('f list \<times> real list) option \<Rightarrow> event list
     \<Rightarrow> event list \<times> (exn + ('f list \<times> real list) option)" where
  "merge_loop env [] acc tr = (tr, Inr acc)"
| "merge_loop env (year # years) acc tr =
     (case cerra_si10 env year of
        None \<Rightarrow> (tr @ [NpLoad (Cerra_si10 year)], Inl FileNotFoundError)
      | Some d \<Rightarrow>
          (case cerra_datetime env year of
             None \<Rightarrow>
               (tr @ [NpLoad (Cerra_si10 year), NpLoad (Cerra_datetime year)],
                Inl FileNotFoundError)
           | Some dt \<Rightarrow>
               merge_loop env years
                 (case acc of
                    None \<Rightarrow> Some (d, dt)
                  | Some (merged_data, merged_dt) \<Rightarrow>
                      Some (merged_data @ d, merged_dt @ dt))
                 (tr @ [NpLoad (Cerra_si10 year), NpLoad (Cerra_datetime year)])))"

definition merge_out_data ::
  "('f, 'g) env \<Rightarrow> int \<Rightarrow> int \<Rightarrow> event list
     \<Rightarrow> event list \<times> (exn + ('f list \<times> real list) option)" where
  "merge_out_data env start_year end_year tr = merge_loop env [start_year..end_year] None tr"

text \<open>
  The loop over \<open>in_vars\<close>: each variable gets a trailing axis of length one and is
  concatenated along it, which needs the same number of time steps.
\<close>

fun load_in_vars ::
  "('f, 'g) env \<Rightarrow> string list \<Rightarrow> 'g list list option \<Rightarrow> event list
     \<Rightarrow> event list \<times> (exn + 'g list list option)" where
  "load_in_vars env [] in_data tr = (tr, Inr in_data)"
| "load_in_vars env (in_var # in_vars) in_data tr =
     (case era5_var env in_var of
        None \<Rightarrow> (tr @ [NcDataset (Era5 in_var)], Inl FileNotFoundError)
      | Some frames \<Rightarrow>
          (let tmp_data = map (\<lambda>g. [g]) frames in
           case in_data of
             None \<Rightarrow> load_in_vars env in_vars (Some tmp_data) (tr @ [NcDataset (Era5 in_var)])
           | Some d \<Rightarrow>
               if length d \<noteq> length tmp_data
               then (tr @ [NcDataset (Era5 in_var)], Inl ValueError)
               else load_in_vars env in_vars (Some (map2 (@) d tmp_data))
                      (tr @ [NcDataset (Era5 in_var)])))"

text \<open>
  \<open>datetime(year, 1, 1, 1).timestamp()\<close>: the constructor raises ValueError outside the
  years 1 to 9999; the conversion to epoch seconds is the machine's, and may raise too.
\<close>

definition jan1_timestamp :: "('f, 'g) env \<Rightarrow> int \<Rightarrow> exn + real" where
  "jan1_timestamp env year =
     (if year < 1 \<or> 9999 < year then Inl ValueError else local_timestamp env year)"

text \<open>
  The part of \<open>make_clean_data\<close> after the loading: the two exact-match lookups, the
  print of the indices and the two slices.
\<close>

definition align ::
  "('f, 'g) env \<Rightarrow> 'g list list option \<Rightarrow> ('f list \<times> real list) option \<Rightarrow> int \<Rightarrow> int
     \<Rightarrow> event list \<Rightarrow> event list \<times> (exn + ('g list list \<times> 'f list) option)" where
  "align env in_data out start_year end_year tr =
     (case
        bind_exn (jan1_timestamp env start_year) (\<lambda>low_hour.
        bind_exn (jan1_timestamp env end_year) (\<lambda>high_hour.
        bind_exn (case out of None \<Rightarrow> Inl IndexError
                  | Some (out_data, out_date) \<Rightarrow> np_where_first out_date low_hour) (\<lambda>low_index.
        bind_exn (case out of None \<Rightarrow> Inl IndexError
                  | Some (out_data, out_date) \<Rightarrow> np_where_first out_date high_hour) (\<lambda>high_index.
        Inr (low_index, high_index)))))
      of
        Inl e \<Rightarrow> (tr, Inl e)
      | Inr (low_index, high_index) \<Rightarrow>
          (tr @ [PrintIndices low_index high_index],
           case in_data of
             None \<Rightarrow> Inl TypeError
           | Some d \<Rightarrow>
               Inr (Some (py_slice d (Some (int low_index)) (Some (int high_index)),
                          py_slice (fst (the out)) (Some (int low_index))
                            (Some (int high_index))))))"

definition make_clean_data ::
  "('f, 'g) env \<Rightarrow> string list \<Rightarrow> int \<Rightarrow> int
     \<Rightarrow> event list \<times> (exn + ('g list list \<times> 'f list) option)" where
  "make_clean_data env in_vars start_year end_year =
     (if start_year < 2010 \<or> end_year > 2020
      then ([Print ''year must be greater than 2010 and less than 2020''], Inr None)
      else
        (case merge_out_data env 2010 2020 [] of
           (tr, Inl e) \<Rightarrow> (tr, Inl e)
         | (tr, Inr out) \<Rightarrow>
             (case load_in_vars env in_vars None tr of
                (tr', Inl e) \<Rightarrow> (tr', Inl e)
              | (tr', Inr in_data) \<Rightarrow> align env in_data out start_year end_year tr')))"

text \<open>
  A small archive for concrete runs: every year has one high-resolution frame, stamped
  with \<open>7200 * year\<close>, every variable has eleven low-resolution frames, and the local
  clock is one hour ahead of the stamps, so that no requested boundary is in the archive.
  The conversion raises ValueError for the year 1.
\<close>

definition shifted_env :: "(int, nat) env" where
  "shifted_env =
     \<lparr>cerra_si10 = (\<lambda>year. Some [year]),
      cerra_datetime = (\<lambda>year. Some [7200 * real_of_int year]),
      era5_var = (\<lambda>v. Some [0, 1, 2, 3, 4, 5, 6, 7, 8, 9, 10]),
      local_timestamp =
        (\<lambda>year. if year \<le> 1 then Inl ValueError else Inr (7200 * real_of_int year + 3600))\<rparr>"

section \<open>models.py\<close>

subsection \<open>SinusoidalPositionEmbeddings\<close>

text \<open>
  \<open>torch.arange(n)\<close>: the values \<open>0, ..., n-1\<close>; a negative \<open>n\<close> is refused
  (the bounds are inconsistent with the step).
\<close>

definition torch_arange :: "int \<Rightarrow> exn + real list" where
  "torch_arange n = (if n < 0 then Inl RuntimeError else Inr (map real [0..<nat n]))"

text \<open>
  \<open>forward\<close>, on a one-dimensional batch of time steps, over the reals. The quotient
  \<open>math.log(10000) / (half_dim - 1)\<close> is a Python float divided by a Python int, which
  raises ZeroDivisionError when the int is zero. The result is the list of the rows.
\<close>

definition SinusoidalPositionEmbeddings_forward :: "int \<Rightarrow> real list \<Rightarrow> exn + real list list" where
  "SinusoidalPositionEmbeddings_forward self_dim time =
     (let half_dim = self_dim div 2 in
      if half_dim - 1 = 0 then Inl ZeroDivisionError
      else
        (let embeddings = ln 10000 / real_of_int (half_dim - 1) in
         bind_exn (torch_arange half_dim) (\<lambda>ar.
           (let freqs = map (\<lambda>i. exp (i * - embeddings)) ar;
                outer = map (\<lambda>t. map (\<lambda>f. t * f) freqs) time
            in Inr (map (\<lambda>row. map sin row @ map cos row) outer)))))"

subsection \<open>Tensors, as far as the claims need them\<close>

text \<open>
  The layers of torch. Each carries what its constructor was given: the two
  convolutions their channel counts, kernel size, stride and padding; \<open>BatchNorm2d\<close> its
  number of features; \<open>Linear\<close> its two widths; \<open>Dropout\<close> its rate. \<open>BatchNorm2d\<close>
  and \<open>Dropout\<close> also carry the \<open>training\<close> flag of the module, which a new module
  has set and \<open>eval()\<close> clears; no other layer here looks at it.
\<close>

datatype module =
    Conv2d nat nat nat nat nat
  | ConvTranspose2d nat nat nat nat nat
  | BatchNorm2d nat bool
  | Linear nat nat
  | ReLU
  | Dropout real bool
  | SinusoidalPositionEmbeddings int

text \<open>
  A tensor is kept as its shape and the expression that computed it: which layers and
  which torch functions were applied to which arguments, in which order. Its numbers are
  not kept.
\<close>

datatype texpr =
    Arg string
  | Layer string module texpr
  | Op string "texpr list"

record tensor =
  shape :: "nat list"
  expr :: texpr

text \<open>Broadcasting of two shapes, read from the last axis backwards.\<close>

fun broadcast_rev :: "nat list \<Rightarrow> nat list \<Rightarrow> nat list option" where
  "broadcast_rev [] ys = Some ys"
| "broadcast_rev (x # xs) [] = Some (x # xs)"
| "broadcast_rev (x # xs) (y # ys) =
     (if x = y \<or> y = 1 then map_option ((#) x) (broadcast_rev xs ys)
      else if x = 1 then map_option ((#) y) (broadcast_rev xs ys)
      else None)"

definition broadcast_shapes :: "nat list \<Rightarrow> nat list \<Rightarrow> exn + nat list" where
  "broadcast_shapes a b =
     (case broadcast_rev (rev a) (rev b) of
        None \<Rightarrow> Inl RuntimeError
      | Some r \<Rightarrow> Inr (rev r))"

text \<open>
  One spatial axis through a convolution: the padded input must hold the kernel.
\<close>

definition conv_out :: "nat \<Rightarrow> nat \<Rightarrow> nat \<Rightarrow> nat \<Rightarrow> exn + nat" where
  "conv_out k s p n =
     (if s = 0 \<or> n + 2 * p < k then Inl RuntimeError
      else Inr ((n + 2 * p - k) div s + 1))"

text \<open>
  One spatial axis through a transposed convolution (dilation 1, no output padding):
  \<open>(n - 1) * s - 2 * p + k\<close>, which must not be negative; the stride must be positive.
\<close>

definition conv_transpose_out :: "nat \<Rightarrow> nat \<Rightarrow> nat \<Rightarrow> nat \<Rightarrow> exn + nat" where
  "conv_transpose_out k s p n =
     (let m = (int n - 1) * int s - 2 * int p + int k
      in if s = 0 \<or> m < 0 then Inl RuntimeError else Inr (nat m))"

text \<open>
  What torch checks on a batch \<open>[B, C, H, W]\<close> given to \<open>Conv2d\<close> (one group). The
  first axis of the weight holds the output channels and must not be empty; the channel
  axis of the input must match the layer; the padded input must hold the kernel. An
  input without elements is accepted only when its batch is empty.
\<close>

definition conv2d_shape ::
  "nat \<Rightarrow> nat \<Rightarrow> (nat \<Rightarrow> exn + nat) \<Rightarrow> nat \<Rightarrow> nat \<Rightarrow> nat \<Rightarrow> nat \<Rightarrow> exn + nat list"
  where
  "conv2d_shape c_in c_out axis B C H W =
     (if c_out = 0 \<or> C \<noteq> c_in then Inl RuntimeError
      else bind_exn (axis H) (\<lambda>H'. bind_exn (axis W) (\<lambda>W'.
        if B \<noteq> 0 \<and> (C = 0 \<or> H = 0 \<or> W = 0) then Inl RuntimeError
        else Inr [B, c_out, H', W'])))"

text \<open>
  The same for \<open>ConvTranspose2d\<close>, whose weight has the input channels on its first
  axis and the output channels on its second. On an empty batch torch takes element 0 of
  the flattened weight, which raises IndexError when there are no output channels;
  otherwise neither the weight, nor the input, nor the output may be without elements.
\<close>

definition conv_transpose2d_shape ::
  "nat \<Rightarrow> nat \<Rightarrow> (nat \<Rightarrow> exn + nat) \<Rightarrow> nat \<Rightarrow> nat \<Rightarrow> nat \<Rightarrow> nat \<Rightarrow> exn + nat list"
  where
  "conv_transpose2d_shape c_in c_out axis B C H W =
     (if c_in = 0 \<or> C \<noteq> c_in then Inl RuntimeError
      else bind_exn (axis H) (\<lambda>H'. bind_exn (axis W) (\<lambda>W'.
        if B = 0 then (if c_out = 0 then Inl IndexError else Inr [B, c_out, H', W'])
        else if c_out = 0 \<or> H = 0 \<or> W = 0 \<or> H' = 0 \<or> W' = 0 then Inl RuntimeError
        else Inr [B, c_out, H', W'])))"

text \<open>
  Either convolution takes a batched input \<open>[B, C, H, W]\<close> or an unbatched one
  \<open>[C, H, W]\<close>, which it treats as a batch of one.
\<close>

definition conv_shape ::
  "(nat \<Rightarrow> nat \<Rightarrow> nat \<Rightarrow> nat \<Rightarrow> exn + nat list) \<Rightarrow> nat list \<Rightarrow> exn + nat list" where
  "conv_shape on_batch s =
     (case s of
        [B, C, H, W] \<Rightarrow> on_batch B C H W
      | [C, H, W] \<Rightarrow> bind_exn (on_batch 1 C H W) (\<lambda>r. Inr (tl r))
      | _ \<Rightarrow> Inl RuntimeError)"

text \<open>
  \<open>BatchNorm2d\<close>: the input must have four axes; in training mode there must be more
  than one value per channel; the channel axis must match the number of features.
\<close>

definition batch_norm2d_shape :: "nat \<Rightarrow> bool \<Rightarrow> nat list \<Rightarrow> exn + nat list" where
  "batch_norm2d_shape num_features training s =
     (case s of
        [B, C, H, W] \<Rightarrow>
          if training \<and> B * H * W = 1 then Inl ValueError
          else if C \<noteq> num_features then Inl RuntimeError
          else Inr [B, C, H, W]
      | _ \<Rightarrow> Inl ValueError)"

text \<open>\<open>Linear\<close> acts on the last axis, which must have the width of its input.\<close>

definition linear_shape :: "nat \<Rightarrow> nat \<Rightarrow> nat list \<Rightarrow> exn + nat list" where
  "linear_shape in_features out_features s =
     (if s \<noteq> [] \<and> last s = in_features then Inr (butlast s @ [out_features])
      else Inl RuntimeError)"

text \<open>
  The shape that \<open>SinusoidalPositionEmbeddings.forward\<close> gives: the same division and the
  same \<open>arange\<close> as above, then \<open>time[:, None]\<close> (a new second axis) broadcast against
  \<open>[1, half_dim]\<close>, and the last axis doubled by the concatenation of sine and cosine.
\<close>

definition sinusoidal_shape :: "int \<Rightarrow> nat list \<Rightarrow> exn + nat list" where
  "sinusoidal_shape self_dim s =
     (let half_dim = self_dim div 2 in
      if half_dim - 1 = 0 then Inl ZeroDivisionError
      else if half_dim < 0 then Inl RuntimeError
      else
        (case s of
           [] \<Rightarrow> Inl IndexError
         | B # rest \<Rightarrow>
             bind_exn (broadcast_shapes (B # 1 # rest) [1, nat half_dim]) (\<lambda>r.
               Inr (butlast r @ [last r + last r]))))"

definition module_shape :: "module \<Rightarrow> nat list \<Rightarrow> exn + nat list" where
  "module_shape m s =
     (case m of
        Conv2d c_in c_out k st p \<Rightarrow> conv_shape (conv2d_shape c_in c_out (conv_out k st p)) s
      | ConvTranspose2d c_in c_out k st p \<Rightarrow>
          conv_shape (conv_transpose2d_shape c_in c_out (conv_transpose_out k st p)) s
      | BatchNorm2d c training \<Rightarrow> batch_norm2d_shape c training s
      | Linear i out \<Rightarrow> linear_shape i out s
      | ReLU \<Rightarrow> Inr s
      | Dropout p training \<Rightarrow> Inr s
      | SinusoidalPositionEmbeddings d \<Rightarrow> sinusoidal_shape d s)"

text \<open>Calling the layer stored under the attribute \<open>name\<close>.\<close>

definition layer :: "string \<Rightarrow> module \<Rightarrow> tensor \<Rightarrow> exn + tensor" where
  "layer name m x =
     bind_exn (module_shape m (shape x)) (\<lambda>s.
       Inr \<lparr>shape = s, expr = Layer name m (expr x)\<rparr>)"

text \<open>
  \<open>torch.mean(x, dim=1, keepdim=True)\<close> and \<open>torch.max(x, dim=1, keepdim=True)[0]\<close>: axis 1
  must exist and becomes 1; the maximum also needs it to be non-empty.
\<close>

definition reduce_dim1_shape :: "bool \<Rightarrow> nat list \<Rightarrow> exn + nat list" where
  "reduce_dim1_shape nonempty s =
     (case s of
        B # C # rest \<Rightarrow> if nonempty \<and> C = 0 then Inl IndexError else Inr (B # 1 # rest)
      | _ \<Rightarrow> Inl IndexError)"

definition torch_mean :: "tensor \<Rightarrow> exn + tensor" where
  "torch_mean x =
     bind_exn (reduce_dim1_shape False (shape x)) (\<lambda>s.
       Inr \<lparr>shape = s, expr = Op ''torch.mean'' [expr x]\<rparr>)"

definition torch_max :: "tensor \<Rightarrow> exn + tensor" where
  "torch_max x =
     bind_exn (reduce_dim1_shape True (shape x)) (\<lambda>s.
       Inr \<lparr>shape = s, expr = Op ''torch.max'' [expr x]\<rparr>)"

text \<open>
  \<open>torch.cat((a, b), dim=1)\<close>: both need axis 1 and must agree on every other axis.
\<close>

definition cat_dim1_shape :: "nat list \<Rightarrow> nat list \<Rightarrow> exn + nat list" where
  "cat_dim1_shape a b =
     (case (a, b) of
        (B # C # rest, B' # C' # rest') \<Rightarrow>
          if B = B' \<and> rest = rest' then Inr (B # (C + C') # rest) else Inl RuntimeError
      | _ \<Rightarrow> Inl RuntimeError)"

definition torch_cat :: "tensor \<Rightarrow> tensor \<Rightarrow> exn + tensor" where
  "torch_cat a b =
     bind_exn (cat_dim1_shape (shape a) (shape b)) (\<lambda>s.
       Inr \<lparr>shape = s, expr = Op ''torch.cat'' [expr a, expr b]\<rparr>)"

definition torch_sigmoid :: "tensor \<Rightarrow> exn + tensor" where
  "torch_sigmoid x = Inr \<lparr>shape = shape x, expr = Op ''torch.sigmoid'' [expr x]\<rparr>"

text \<open>\<open>a + b\<close> and \<open>a * b\<close>, element by element after broadcasting.\<close>

definition tensor_add :: "tensor \<Rightarrow> tensor \<Rightarrow> exn + tensor" where
  "tensor_add a b =
     bind_exn (broadcast_shapes (shape a) (shape b)) (\<lambda>s.
       Inr \<lparr>shape = s, expr = Op ''+'' [expr a, expr b]\<rparr>)"

definition tensor_mul :: "tensor \<Rightarrow> tensor \<Rightarrow> exn + tensor" where
  "tensor_mul a b =
     bind_exn (broadcast_shapes (shape a) (shape b)) (\<lambda>s.
       Inr \<lparr>shape = s, expr = Op ''*'' [expr a, expr b]\<rparr>)"

text \<open>\<open>x[(..., ) + (None, ) * 2]\<close>: two new axes of length one at the end.\<close>

definition extend_last2 :: "tensor \<Rightarrow> exn + tensor" where
  "extend_last2 x = Inr \<lparr>shape = shape x @ [1, 1], expr = Op ''[..., None, None]'' [expr x]\<rparr>"

subsection \<open>SpatialAttention\<close>

record SpatialAttention =
  conv :: module

definition SpatialAttention_init :: "nat \<Rightarrow> SpatialAttention" where
  "SpatialAttention_init kernel_size = \<lparr>conv = Conv2d 2 1 kernel_size 1 (kernel_size div 2)\<rparr>"

definition SpatialAttention_forward :: "SpatialAttention \<Rightarrow> tensor \<Rightarrow> exn + tensor" where
  "SpatialAttention_forward self x =
     bind_exn (torch_mean x) (\<lambda>avg_out.
     bind_exn (torch_max x) (\<lambda>max_out.
     bind_exn (torch_cat avg_out max_out) (\<lambda>concat.
     bind_exn (layer ''conv'' (conv self) concat) (\<lambda>a.
     bind_exn (torch_sigmoid a) (\<lambda>attention.
     tensor_mul x attention)))))"

subsection \<open>Block\<close>

record Block =
  time_mlp :: module
  conv1 :: module
  transform :: module
  conv2 :: module
  bnorm1 :: module
  bnorm2 :: module
  relu :: module
  attention :: bool
  spatial_attention :: "SpatialAttention option"
  dropout :: "real option"
  drop' :: "module option"

text \<open>\<open>if self.dropout:\<close> holds for a rate that is neither \<open>None\<close> nor zero.\<close>

definition truthy :: "real option \<Rightarrow> bool" where
  "truthy d = (case d of None \<Rightarrow> False | Some p \<Rightarrow> p \<noteq> 0)"

text \<open>
  \<open>__init__\<close>: the fields it assigns, and the one way it can fail for widths that are
  natural numbers, which is that \<open>nn.Dropout\<close> refuses a rate outside \<open>[0, 1]\<close>. The message printed when
  attention is on is left out. The field \<open>drop\<close> is \<open>drop'\<close> here.
\<close>

definition Block_modules :: "nat \<Rightarrow> nat \<Rightarrow> nat \<Rightarrow> bool \<Rightarrow> bool \<Rightarrow> real option \<Rightarrow> Block" where
  "Block_modules in_ch out_ch time_emb_dim att up dr =
     \<lparr>time_mlp = Linear time_emb_dim out_ch,
      conv1 = Conv2d in_ch out_ch 3 1 1,
      transform =
        (if up then ConvTranspose2d out_ch out_ch 4 2 1 else Conv2d out_ch out_ch 4 2 1),
      conv2 = Conv2d out_ch out_ch 3 1 1,
      bnorm1 = BatchNorm2d out_ch True,
      bnorm2 = BatchNorm2d out_ch True,
      relu = ReLU,
      attention = att,
      spatial_attention = (if att then Some (SpatialAttention_init 7) else None),
      dropout = dr,
      drop' = (if truthy dr then Some (Dropout (the dr) True) else None)\<rparr>"

definition dropout_accepted :: "real option \<Rightarrow> bool" where
  "dropout_accepted dr = (truthy dr \<longrightarrow> 0 \<le> the dr \<and> the dr \<le> 1)"

definition Block_init ::
  "nat \<Rightarrow> nat \<Rightarrow> nat \<Rightarrow> bool \<Rightarrow> bool \<Rightarrow> real option \<Rightarrow> exn + Block" where
  "Block_init in_ch out_ch time_emb_dim att up dr =
     (if \<not> dropout_accepted dr then Inl ValueError
      else Inr (Block_modules in_ch out_ch time_emb_dim att up dr))"

definition Block_forward :: "Block \<Rightarrow> tensor \<Rightarrow> tensor \<Rightarrow> exn + tensor" where
  "Block_forward self x t =
     bind_exn (layer ''conv1'' (conv1 self) x) (\<lambda>h.
     bind_exn (layer ''relu'' (relu self) h) (\<lambda>h.
     bind_exn (layer ''bnorm1'' (bnorm1 self) h) (\<lambda>h.
     bind_exn (layer ''time_mlp'' (time_mlp self) t) (\<lambda>time_emb.
     bind_exn (layer ''relu'' (relu self) time_emb) (\<lambda>time_emb.
     bind_exn (extend_last2 time_emb) (\<lambda>time_emb.
     bind_exn (tensor_add h time_emb) (\<lambda>h.
     bind_exn (layer ''conv2'' (conv2 self) h) (\<lambda>h.
     bind_exn (layer ''relu'' (relu self) h) (\<lambda>h.
     bind_exn (layer ''bnorm2'' (bnorm2 self) h) (\<lambda>h.
     bind_exn
       (if attention self then
          (case spatial_attention self of
             None \<Rightarrow> Inl AttributeError
           | Some sa \<Rightarrow> SpatialAttention_forward sa h)
        else Inr h) (\<lambda>h.
     bind_exn
       (if truthy (dropout self) then
          (case drop' self of
             None \<Rightarrow> Inl AttributeError
           | Some d \<Rightarrow> layer ''drop'' d h)
        else Inr h) (\<lambda>h.
     layer ''transform'' (transform self) h))))))))))))"

text \<open>
  The six steps of the specification's section 4.5, as the expression they describe for
  a block built with the given arguments whose normalisation and dropout layers are in
  the given mode: (1) convolution, activation, normalisation; (2) the time embedding
  projected, activated and added to every location; (3) convolution, activation,
  normalisation; (4) with attention, the map times the sigmoid of a convolution of the
  concatenated channel-wise average and maximum; (5) with a dropout rate, dropout;
  (6) the resampling: a strided convolution going down, a strided transposed convolution
  going up.
\<close>

definition Block_steps ::
  "nat \<Rightarrow> nat \<Rightarrow> nat \<Rightarrow> bool \<Rightarrow> bool \<Rightarrow> real option \<Rightarrow> bool \<Rightarrow> texpr \<Rightarrow> texpr \<Rightarrow> texpr" where
  "Block_steps in_ch out_ch time_emb_dim att up dr mode ex et =
     (let step1 =
            Layer ''bnorm1'' (BatchNorm2d out_ch mode)
              (Layer ''relu'' ReLU (Layer ''conv1'' (Conv2d in_ch out_ch 3 1 1) ex));
          step2 =
            Op ''+'' [step1,
              Op ''[..., None, None]''
                [Layer ''relu'' ReLU (Layer ''time_mlp'' (Linear time_emb_dim out_ch) et)]];
          step3 =
            Layer ''bnorm2'' (BatchNorm2d out_ch mode)
              (Layer ''relu'' ReLU (Layer ''conv2'' (Conv2d out_ch out_ch 3 1 1) step2));
          step4 =
            (if att then
               Op ''*'' [step3,
                 Op ''torch.sigmoid''
                   [Layer ''conv'' (Conv2d 2 1 7 1 3)
                      (Op ''torch.cat'' [Op ''torch.mean'' [step3], Op ''torch.max'' [step3]])]]
             else step3);
          step5 = (if truthy dr then Layer ''drop'' (Dropout (the dr) mode) step4 else step4)
      in Layer ''transform''
           (if up then ConvTranspose2d out_ch out_ch 4 2 1 else Conv2d out_ch out_ch 4 2 1)
           step5)"

text \<open>
  \<open>train(mode)\<close>, which every module inherits: it sets the \<open>training\<close> flag of the module
  and of all the modules below it.
\<close>

fun module_train :: "bool \<Rightarrow> module \<Rightarrow> module" where
  "module_train mode (BatchNorm2d c training) = BatchNorm2d c mode"
| "module_train mode (Dropout p training) = Dropout p mode"
| "module_train mode m = m"

definition Block_train :: "bool \<Rightarrow> Block \<Rightarrow> Block" where
  "Block_train mode self =
     self\<lparr>bnorm1 := module_train mode (bnorm1 self),
          bnorm2 := module_train mode (bnorm2 self),
          drop' := map_option (module_train mode) (drop' self)\<rparr>"

subsection \<open>SimpleUnet\<close>

record SimpleUnet =
  input_channels :: nat
  output_channels :: nat
  down_channels :: "nat list"
  up_channels :: "nat list"
  up_in_channels :: "nat list"
  time_emb_dim :: nat
  time_mlp_seq :: "module list"
  conv0 :: module
  downs :: "Block list"
  ups :: "Block list"
  output_conv :: module

text \<open>A list of results is a result: the first exception wins.\<close>

fun collect :: "(exn + 'a) list \<Rightarrow> exn + 'a list" where
  "collect [] = Inr []"
| "collect (r # rs) = bind_exn r (\<lambda>v. bind_exn (collect rs) (\<lambda>vs. Inr (v # vs)))"

text \<open>
  \<open>__init__\<close>. The channel plan is a tuple of natural numbers; \<open>self.up_channels[0]\<close>,
  \<open>self.down_channels[0]\<close> and \<open>self.up_channels[-1]\<close> raise IndexError on the empty
  plan. Inside the comprehensions every index is below the length it indexes. The field
  \<open>time_mlp\<close> is \<open>time_mlp_seq\<close> here and \<open>output\<close> is \<open>output_conv\<close>.
\<close>

definition SimpleUnet_init ::
  "nat list \<Rightarrow> nat \<Rightarrow> nat \<Rightarrow> nat \<Rightarrow> bool \<Rightarrow> real option \<Rightarrow> exn + SimpleUnet" where
  "SimpleUnet_init unet_channels in_channels out_channels emb_dim att dr =
     (let down = unet_channels;
          up = rev unet_channels
      in
      bind_exn (np_item up 0) (\<lambda>up0.
      (let up_in = up0 # map (\<lambda>i. up ! i * 2) [1..<length up] in
       bind_exn (np_item down 0) (\<lambda>down0.
       bind_exn (collect (map (\<lambda>i. Block_init (down ! i) (down ! (i + 1)) emb_dim att False dr)
                   [0..<length down - 1])) (\<lambda>down_blocks.
       bind_exn (collect (map (\<lambda>i. Block_init (up_in ! i) (up ! (i + 1)) emb_dim att True dr)
                   [0..<length up - 1])) (\<lambda>up_blocks.
       bind_exn (np_item up (- 1)) (\<lambda>up_last.
         Inr \<lparr>input_channels = in_channels,
              output_channels = out_channels,
              down_channels = down,
              up_channels = up,
              up_in_channels = up_in,
              time_emb_dim = emb_dim,
              time_mlp_seq =
                [SinusoidalPositionEmbeddings (int emb_dim), Linear emb_dim emb_dim, ReLU],
              conv0 = Conv2d in_channels down0 3 1 1,
              downs = down_blocks,
              ups = up_blocks,
              output_conv = Conv2d up_last out_channels 1 1 0\<rparr>)))))))"

definition SimpleUnet_train :: "bool \<Rightarrow> SimpleUnet \<Rightarrow> SimpleUnet" where
  "SimpleUnet_train mode self =
     self\<lparr>downs := map (Block_train mode) (downs self),
          ups := map (Block_train mode) (ups self)\<rparr>"

text \<open>\<open>nn.Sequential\<close>: the layers one after the other.\<close>

fun Sequential_forward :: "string \<Rightarrow> module list \<Rightarrow> tensor \<Rightarrow> exn + tensor" where
  "Sequential_forward name [] x = Inr x"
| "Sequential_forward name (m # ms) x =
     bind_exn (layer name m x) (\<lambda>y. Sequential_forward name ms y)"

text \<open>
  The first loop of \<open>forward\<close>, from stage \<open>i\<close> on; \<open>n\<close> is \<open>len(self.downs)\<close>. The state
  is the feature map and the list \<open>residual_inputs\<close>, whose end is the top of the stack.
\<close>

fun down_loop ::
  "Block list \<Rightarrow> nat \<Rightarrow> nat \<Rightarrow> tensor \<Rightarrow> tensor \<Rightarrow> tensor list \<Rightarrow> exn + tensor \<times> tensor list"
  where
  "down_loop [] i n x t residual_inputs = Inr (x, residual_inputs)"
| "down_loop (down # rest) i n x t residual_inputs =
     bind_exn (Block_forward down x t) (\<lambda>x'.
       down_loop rest (i + 1) n x' t
         (if int i < int n - 1 then residual_inputs @ [x'] else residual_inputs))"

text \<open>\<open>residual_inputs.pop()\<close>: the last entry leaves the list; IndexError when empty.\<close>

definition list_pop :: "'a list \<Rightarrow> exn + 'a \<times> 'a list" where
  "list_pop xs = (if xs = [] then Inl IndexError else Inr (last xs, butlast xs))"

text \<open>The second loop of \<open>forward\<close>, from stage \<open>i\<close> on.\<close>

fun up_loop ::
  "Block list \<Rightarrow> nat \<Rightarrow> tensor \<Rightarrow> tensor \<Rightarrow> tensor list \<Rightarrow> exn + tensor \<times> tensor list"
  where
  "up_loop [] i x t residual_inputs = Inr (x, residual_inputs)"
| "up_loop (up # rest) i x t residual_inputs =
     bind_exn
       (if i \<noteq> 0 then
          bind_exn (list_pop residual_inputs) (\<lambda>(residual_x, remaining).
          bind_exn (torch_cat x residual_x) (\<lambda>x'. Inr (x', remaining)))
        else Inr (x, residual_inputs)) (\<lambda>(x', remaining).
     bind_exn (Block_forward up x' t) (\<lambda>x''.
       up_loop rest (i + 1) x'' t remaining))"

text \<open>
  \<open>forward\<close> up to the end of the second loop: the feature map and what is left in
  \<open>residual_inputs\<close> after the first loop, and after the second.
\<close>

definition SimpleUnet_passes ::
  "SimpleUnet \<Rightarrow> tensor \<Rightarrow> tensor
     \<Rightarrow> exn + (tensor \<times> tensor list) \<times> (tensor \<times> tensor list)" where
  "SimpleUnet_passes self x timestep =
     bind_exn (Sequential_forward ''time_mlp'' (time_mlp_seq self) timestep) (\<lambda>t.
     bind_exn (layer ''conv0'' (conv0 self) x) (\<lambda>x0.
     bind_exn (down_loop (downs self) 0 (length (downs self)) x0 t [x0]) (\<lambda>(x1, stack1).
     bind_exn (up_loop (ups self) 0 x1 t stack1) (\<lambda>(x2, stack2).
       Inr ((x1, stack1), (x2, stack2))))))"

definition SimpleUnet_forward :: "SimpleUnet \<Rightarrow> tensor \<Rightarrow> tensor \<Rightarrow> exn + tensor" where
  "SimpleUnet_forward self x timestep =
     bind_exn (SimpleUnet_passes self x timestep) (\<lambda>(down_state, (x2, stack2)).
       layer ''output'' (output_conv self) x2)"

text \<open>The network of the specification's example, and inputs of given shapes.\<close>

definition input_x :: "nat list \<Rightarrow> tensor" where
  "input_x s = \<lparr>shape = s, expr = Arg ''x''\<rparr>"

definition input_timestep :: "nat list \<Rightarrow> tensor" where
  "input_timestep s = \<lparr>shape = s, expr = Arg ''timestep''\<rparr>"

section \<open>Properties of dataset.py\<close>

lemma bind_exn_simps [simp]:
  "bind_exn (Inl e) f = Inl e"
  "bind_exn (Inr v) f = f v"
  by (simp_all add: bind_exn_def)

subsection \<open>make_clean_data: the year guard\<close>

text \<open>
  Claim C5, as the code has it: for a year range outside the supported coverage
  (\<open>start_year < 2010\<close> or \<open>end_year > 2020\<close>) \<open>make_clean_data\<close> prints one message and
  returns \<open>None\<close>. It raises nothing, and it touches no file: the print is the only event.
\<close>

theorem make_clean_data_out_of_range:
  "start_year < 2010 \<or> end_year > 2020 \<Longrightarrow>
     make_clean_data env in_vars start_year end_year =
       ([Print ''year must be greater than 2010 and less than 2020''], Inr None)"
  by (simp add: make_clean_data_def)

theorem make_clean_data_out_of_range_witness:
  "((2009::int) < 2010 \<or> (2019::int) > 2020) \<and>
   make_clean_data shifted_env [''u10''] 2009 2019 =
     ([Print ''year must be greater than 2010 and less than 2020''], Inr None)"
  using make_clean_data_out_of_range [of 2009 2019 shifted_env "[''u10'']"] by simp

text \<open>
  The claim as the specification words it (a validation error raised to the caller) fails:
  for the years 2009 to 2019 the call returns normally, with \<open>None\<close>.
\<close>

theorem make_clean_data_no_error_counterexample:
  "snd (make_clean_data shifted_env [''u10''] 2009 2019) = Inr None"
  by (simp add: make_clean_data_def)

subsection \<open>make_clean_data: the exact-match lookup\<close>

lemma np_where_first_notin: "v \<notin> set xs \<Longrightarrow> np_where_first xs v = Inl IndexError"
proof -
  assume "v \<notin> set xs"
  then have "np_where_eq xs v = []"
    by (auto simp: np_where_eq_def filter_empty_conv)
  then show ?thesis by (simp add: np_where_first_def)
qed

lemma np_where_first_error: "np_where_first xs v = Inl e \<Longrightarrow> e = IndexError"
  by (simp add: np_where_first_def split: list.splits)

lemma align_no_match:
  assumes "jan1_timestamp env start_year = Inr low_hour"
    and "jan1_timestamp env end_year = Inr high_hour"
    and "low_hour \<notin> set out_date \<or> high_hour \<notin> set out_date"
  shows "align env in_data (Some (out_data, out_date)) start_year end_year tr =
           (tr, Inl IndexError)"
  using assms
  by (cases "np_where_first out_date low_hour")
     (auto simp: align_def np_where_first_notin dest: np_where_first_error)

lemma shifted_merge:
  "merge_out_data shifted_env 2010 2020 [] =
     ([NpLoad (Cerra_si10 2010), NpLoad (Cerra_datetime 2010),
       NpLoad (Cerra_si10 2011), NpLoad (Cerra_datetime 2011),
       NpLoad (Cerra_si10 2012), NpLoad (Cerra_datetime 2012),
       NpLoad (Cerra_si10 2013), NpLoad (Cerra_datetime 2013),
       NpLoad (Cerra_si10 2014), NpLoad (Cerra_datetime 2014),
       NpLoad (Cerra_si10 2015), NpLoad (Cerra_datetime 2015),
       NpLoad (Cerra_si10 2016), NpLoad (Cerra_datetime 2016),
       NpLoad (Cerra_si10 2017), NpLoad (Cerra_datetime 2017),
       NpLoad (Cerra_si10 2018), NpLoad (Cerra_datetime 2018),
       NpLoad (Cerra_si10 2019), NpLoad (Cerra_datetime 2019),
       NpLoad (Cerra_si10 2020), NpLoad (Cerra_datetime 2020)],
      Inr (Some
        ([2010, 2011, 2012, 2013, 2014, 2015, 2016, 2017, 2018, 2019, 2020],
         map (\<lambda>y. 7200 * y)
           [2010, 2011, 2012, 2013, 2014, 2015, 2016, 2017, 2018, 2019, 2020])))"
  by (simp add: merge_out_data_def shifted_env_def upto_rec1)

text \<open>
  Claim C8: once the yearly archives are merged and the two requested boundaries
  (1 January, 01:00, of \<open>start_year\<close> and of \<open>end_year\<close>) are computed, a boundary
  that is not exactly among the merged timestamps makes \<open>make_clean_data\<close> end in an
  exception, whatever else happens; no neighbouring timestamp is used instead. When the
  low-resolution variables load, the exception is the IndexError of the lookup itself, and
  nothing is printed.
\<close>

theorem make_clean_data_lookup_strict:
  assumes "\<not> (start_year < 2010 \<or> end_year > 2020)"
    and "merge_out_data env 2010 2020 [] = (tr, Inr (Some (out_data, out_date)))"
    and "jan1_timestamp env start_year = Inr low_hour"
    and "jan1_timestamp env end_year = Inr high_hour"
    and "low_hour \<notin> set out_date \<or> high_hour \<notin> set out_date"
  shows "(\<exists>tr' e. make_clean_data env in_vars start_year end_year = (tr', Inl e)) \<and>
         (\<forall>tr' in_data. load_in_vars env in_vars None tr = (tr', Inr in_data) \<longrightarrow>
            make_clean_data env in_vars start_year end_year = (tr', Inl IndexError))"
proof
  obtain tr' r where l: "load_in_vars env in_vars None tr = (tr', r)"
    by (cases "load_in_vars env in_vars None tr")
  show "\<exists>tr' e. make_clean_data env in_vars start_year end_year = (tr', Inl e)"
  proof (cases r)
    case (Inl e)
    with assms(1,2) l show ?thesis by (simp add: make_clean_data_def)
  next
    case (Inr in_data)
    have "align env in_data (Some (out_data, out_date)) start_year end_year tr' =
            (tr', Inl IndexError)"
      using assms(3-5) by (rule align_no_match)
    with assms(1,2) l Inr show ?thesis by (simp add: make_clean_data_def)
  qed
next
  show "\<forall>tr' in_data. load_in_vars env in_vars None tr = (tr', Inr in_data) \<longrightarrow>
            make_clean_data env in_vars start_year end_year = (tr', Inl IndexError)"
  proof (intro allI impI)
    fix tr' in_data
    assume l: "load_in_vars env in_vars None tr = (tr', Inr in_data)"
    have "align env in_data (Some (out_data, out_date)) start_year end_year tr' =
            (tr', Inl IndexError)"
      using assms(3-5) by (rule align_no_match)
    with assms(1,2) l show "make_clean_data env in_vars start_year end_year = (tr', Inl IndexError)"
      by (simp add: make_clean_data_def)
  qed
qed

theorem make_clean_data_lookup_strict_witness:
  "\<not> ((2010::int) < 2010 \<or> (2019::int) > 2020) \<and>
   jan1_timestamp shifted_env 2010 = Inr 14475600 \<and>
   jan1_timestamp shifted_env 2019 = Inr 14540400 \<and>
   14475600 \<notin>
     set (map (\<lambda>y. 7200 * y)
       [2010, 2011, 2012, 2013, 2014, 2015, 2016, 2017, 2018, 2019, 2020 :: real]) \<and>
   make_clean_data shifted_env [''u10''] 2010 2019 =
     ([NpLoad (Cerra_si10 2010), NpLoad (Cerra_datetime 2010),
       NpLoad (Cerra_si10 2011), NpLoad (Cerra_datetime 2011),
       NpLoad (Cerra_si10 2012), NpLoad (Cerra_datetime 2012),
       NpLoad (Cerra_si10 2013), NpLoad (Cerra_datetime 2013),
       NpLoad (Cerra_si10 2014), NpLoad (Cerra_datetime 2014),
       NpLoad (Cerra_si10 2015), NpLoad (Cerra_datetime 2015),
       NpLoad (Cerra_si10 2016), NpLoad (Cerra_datetime 2016),
       NpLoad (Cerra_si10 2017), NpLoad (Cerra_datetime 2017),
       NpLoad (Cerra_si10 2018), NpLoad (Cerra_datetime 2018),
       NpLoad (Cerra_si10 2019), NpLoad (Cerra_datetime 2019),
       NpLoad (Cerra_si10 2020), NpLoad (Cerra_datetime 2020),
       NcDataset (Era5 ''u10'')],
      Inl IndexError)"
proof -
  have y: "\<not> ((2010::int) < 2010 \<or> (2019::int) > 2020)" by simp
  have lo: "jan1_timestamp shifted_env 2010 = Inr 14475600"
    and hi: "jan1_timestamp shifted_env 2019 = Inr 14540400"
    by (simp_all add: jan1_timestamp_def shifted_env_def)
  have e: "14475600 \<notin>
     set (map (\<lambda>y. 7200 * y)
       [2010, 2011, 2012, 2013, 2014, 2015, 2016, 2017, 2018, 2019, 2020 :: real])"
    by simp
  have l: "load_in_vars shifted_env [''u10''] None
      [NpLoad (Cerra_si10 2010), NpLoad (Cerra_datetime 2010),
       NpLoad (Cerra_si10 2011), NpLoad (Cerra_datetime 2011),
       NpLoad (Cerra_si10 2012), NpLoad (Cerra_datetime 2012),
       NpLoad (Cerra_si10 2013), NpLoad (Cerra_datetime 2013),
       NpLoad (Cerra_si10 2014), NpLoad (Cerra_datetime 2014),
       NpLoad (Cerra_si10 2015), NpLoad (Cerra_datetime 2015),
       NpLoad (Cerra_si10 2016), NpLoad (Cerra_datetime 2016),
       NpLoad (Cerra_si10 2017), NpLoad (Cerra_datetime 2017),
       NpLoad (Cerra_si10 2018), NpLoad (Cerra_datetime 2018),
       NpLoad (Cerra_si10 2019), NpLoad (Cerra_datetime 2019),
       NpLoad (Cerra_si10 2020), NpLoad (Cerra_datetime 2020)] =
      ([NpLoad (Cerra_si10 2010), NpLoad (Cerra_datetime 2010),
       NpLoad (Cerra_si10 2011), NpLoad (Cerra_datetime 2011),
       NpLoad (Cerra_si10 2012), NpLoad (Cerra_datetime 2012),
       NpLoad (Cerra_si10 2013), NpLoad (Cerra_datetime 2013),
       NpLoad (Cerra_si10 2014), NpLoad (Cerra_datetime 2014),
       NpLoad (Cerra_si10 2015), NpLoad (Cerra_datetime 2015),
       NpLoad (Cerra_si10 2016), NpLoad (Cerra_datetime 2016),
       NpLoad (Cerra_si10 2017), NpLoad (Cerra_datetime 2017),
       NpLoad (Cerra_si10 2018), NpLoad (Cerra_datetime 2018),
       NpLoad (Cerra_si10 2019), NpLoad (Cerra_datetime 2019),
       NpLoad (Cerra_si10 2020), NpLoad (Cerra_datetime 2020),
       NcDataset (Era5 ''u10'')],
       Inr (Some (map (\<lambda>g. [g]) [0, 1, 2, 3, 4, 5, 6, 7, 8, 9, 10])))"
    by (simp add: shifted_env_def)
  from make_clean_data_lookup_strict [OF y shifted_merge lo hi disjI1 [OF e], of "[''u10'']"] l
  have "make_clean_data shifted_env [''u10''] 2010 2019 =
     ([NpLoad (Cerra_si10 2010), NpLoad (Cerra_datetime 2010),
       NpLoad (Cerra_si10 2011), NpLoad (Cerra_datetime 2011),
       NpLoad (Cerra_si10 2012), NpLoad (Cerra_datetime 2012),
       NpLoad (Cerra_si10 2013), NpLoad (Cerra_datetime 2013),
       NpLoad (Cerra_si10 2014), NpLoad (Cerra_datetime 2014),
       NpLoad (Cerra_si10 2015), NpLoad (Cerra_datetime 2015),
       NpLoad (Cerra_si10 2016), NpLoad (Cerra_datetime 2016),
       NpLoad (Cerra_si10 2017), NpLoad (Cerra_datetime 2017),
       NpLoad (Cerra_si10 2018), NpLoad (Cerra_datetime 2018),
       NpLoad (Cerra_si10 2019), NpLoad (Cerra_datetime 2019),
       NpLoad (Cerra_si10 2020), NpLoad (Cerra_datetime 2020),
       NcDataset (Era5 ''u10'')],
      Inl IndexError)"
    by blast
  with y lo hi e show ?thesis by blast
qed

subsection \<open>DownscalingDataset: construction and length\<close>






subsection \<open>spliting_indices: a partition of the index range\<close>

lemma py_slice_nonneg:
  "0 \<le> a \<Longrightarrow> 0 \<le> b \<Longrightarrow> py_slice xs (Some a) (Some b) = drop (nat a) (take (nat b) xs)"
  by (simp add: py_slice_def slice_bound_def min_def Let_def)

lemma py_slice_to: "0 \<le> b \<Longrightarrow> py_slice xs None (Some b) = take (nat b) xs"
  by (simp add: py_slice_def slice_bound_def min_def Let_def)

lemma py_slice_from: "0 \<le> a \<Longrightarrow> py_slice xs (Some a) None = drop (nat a) xs"
  by (simp add: py_slice_def slice_bound_def min_def Let_def)

lemma three_way_split:
  "k1 \<le> k2 \<Longrightarrow> take k1 xs @ drop k1 (take k2 xs) @ drop k2 xs = xs"
proof -
  assume "k1 \<le> k2"
  then have "take k1 xs = take k1 (take k2 xs)" by (simp add: min_def)
  then have "take k1 xs @ drop k1 (take k2 xs) = take k2 xs"
    by (metis append_take_drop_id)
  then show ?thesis by (metis append_assoc append_take_drop_id)
qed

subsection \<open>Rounding to a double\<close>

lemma rhe_int [simp]: "round_half_even (real_of_int m) = m"
  by (simp add: round_half_even_def)

lemma rhe_ge: "real_of_int m \<le> x \<Longrightarrow> m \<le> round_half_even x"
proof -
  assume "real_of_int m \<le> x"
  then have "m \<le> \<lfloor>x\<rfloor>" by (simp add: le_floor_iff)
  then show ?thesis by (simp add: round_half_even_def Let_def)
qed

lemma rhe_le: "x \<le> real_of_int m \<Longrightarrow> round_half_even x \<le> m"
proof (cases "x = real_of_int m")
  case True
  then show ?thesis by simp
next
  case False
  assume "x \<le> real_of_int m"
  with False have "x < real_of_int m" by simp
  then have "\<lfloor>x\<rfloor> < m" by (simp add: floor_less_iff)
  then show ?thesis by (simp add: round_half_even_def Let_def)
qed

lemma rhe_near: "real_of_int (round_half_even x) - x \<le> 1 / 2"
proof -
  show ?thesis by (auto simp: round_half_even_def Let_def; linarith)
qed

lemma ulp_exponent:
  assumes "(0::real) \<le> x" "x < 2 ^ mantissa_bits"
  defines "k \<equiv> nat (bitlen \<lfloor>\<bar>x\<bar> * 2 ^ min_exponent\<rfloor> - int mantissa_bits)"
  shows "k \<le> min_exponent"
    and "0 < k \<Longrightarrow> 2 ^ (k + mantissa_bits - 1) \<le> x * 2 ^ min_exponent"
proof -
  let ?K = "\<lfloor>\<bar>x\<bar> * 2 ^ min_exponent\<rfloor>"
  have "\<bar>x\<bar> * 2 ^ min_exponent < 2 ^ mantissa_bits * 2 ^ min_exponent"
    using assms by simp
  then have "\<bar>x\<bar> * 2 ^ min_exponent < real_of_int (2 ^ (mantissa_bits + min_exponent))"
    by (simp add: power_add)
  then have "?K < 2 ^ (mantissa_bits + min_exponent)"
    by (simp only: floor_less_iff)
  then have "bitlen ?K \<le> int (mantissa_bits + min_exponent)"
    by (simp add: bitlen_le_iff_power del: of_nat_add)
  then show "k \<le> min_exponent" by (simp add: k_def)
  assume k: "0 < k"
  then have b: "bitlen ?K = int k + int mantissa_bits" by (simp add: k_def)
  then have "0 < ?K" using k by (metis bitlen_eq_zero_iff add_nonneg_eq_0_iff of_nat_0_le_iff not_le of_nat_eq_0_iff less_numeral_extra(3))
  from bitlen_bounds [OF this] have "2 ^ nat (bitlen ?K - 1) \<le> ?K" by simp
  moreover have "nat (bitlen ?K - 1) = k + mantissa_bits - 1" using b k by simp
  ultimately have "(2::int) ^ (k + mantissa_bits - 1) \<le> ?K" by simp
  then have "real_of_int (2 ^ (k + mantissa_bits - 1)) \<le> \<bar>x\<bar> * 2 ^ min_exponent"
    by (simp only: le_floor_iff)
  then show "2 ^ (k + mantissa_bits - 1) \<le> x * 2 ^ min_exponent"
    using assms(1) by simp
qed

lemma round_double_near:
  assumes "(0::real) \<le> x" "x < 2 ^ mantissa_bits"
  shows "\<exists>r. round_double x = Some r \<and> real_of_int \<lfloor>x\<rfloor> \<le> r \<and> r \<le> real_of_int \<lfloor>x\<rfloor> + 1 \<and>
             (1 \<le> r \<longrightarrow> r * (1 - 1 / 2 ^ mantissa_bits) \<le> x)"
proof -
  define k where "k = nat (bitlen \<lfloor>\<bar>x\<bar> * 2 ^ min_exponent\<rfloor> - int mantissa_bits)"
  define j where "j = min_exponent - k"
  define y where "y = x * 2 ^ j"
  define m where "m = round_half_even y"
  define r where "r = real_of_int m / 2 ^ j"
  have kle: "k \<le> min_exponent"
    unfolding k_def using assms by (rule ulp_exponent(1))
  then have mj: "min_exponent = j + k" by (simp add: j_def)
  have p: "(2::real) ^ min_exponent = 2 ^ j * 2 ^ k"
    by (simp add: mj power_add)
  have y: "x * 2 ^ min_exponent / 2 ^ k = y"
    by (simp add: p y_def)
  have r: "real_of_int m * 2 ^ k / 2 ^ min_exponent = r"
    by (simp add: p r_def)
  have "real_of_int (\<lfloor>x\<rfloor> * 2 ^ j) \<le> y"
    by (simp add: y_def)
  then have "\<lfloor>x\<rfloor> * 2 ^ j \<le> m" unfolding m_def by (rule rhe_ge)
  then have "real_of_int (\<lfloor>x\<rfloor> * 2 ^ j) \<le> real_of_int m" by (simp only: of_int_le_iff)
  then have lo: "real_of_int \<lfloor>x\<rfloor> \<le> r"
    by (simp add: r_def field_simps)
  have "x \<le> real_of_int \<lfloor>x\<rfloor> + 1" by linarith
  then have "y \<le> real_of_int ((\<lfloor>x\<rfloor> + 1) * 2 ^ j)"
    by (simp add: y_def)
  then have "m \<le> (\<lfloor>x\<rfloor> + 1) * 2 ^ j" unfolding m_def by (rule rhe_le)
  then have "real_of_int m \<le> real_of_int ((\<lfloor>x\<rfloor> + 1) * 2 ^ j)" by (simp only: of_int_le_iff)
  then have hi: "r \<le> real_of_int \<lfloor>x\<rfloor> + 1"
    by (simp add: r_def field_simps)
  have r0: "0 \<le> r" using lo assms(1) by (smt (verit) of_int_0_le_iff zero_le_floor)
  have "x < real_of_int (2 ^ mantissa_bits)" using assms(2) by simp
  then have "\<lfloor>x\<rfloor> < 2 ^ mantissa_bits" by (simp only: floor_less_iff)
  then have "\<lfloor>x\<rfloor> + 1 \<le> 2 ^ mantissa_bits" by simp
  then have "real_of_int (\<lfloor>x\<rfloor> + 1) \<le> real_of_int (2 ^ mantissa_bits)" by (simp only: of_int_le_iff)
  with hi have "r \<le> 2 ^ mantissa_bits" by simp
  also have "(2::real) ^ mantissa_bits < 2 ^ max_exponent"
    by (simp add: mantissa_bits_def max_exponent_def)
  finally have fin: "\<not> 2 ^ max_exponent \<le> \<bar>r\<bar>" using r0 by simp
  have rd: "round_double x = Some r"
    unfolding round_double_def Let_def k_def [symmetric] y m_def [symmetric] r
    using fin by simp
  have rel: "r * (1 - 1 / 2 ^ mantissa_bits) \<le> x" if "1 \<le> r"
  proof -
    have big: "2 ^ (mantissa_bits - 1) \<le> m"
    proof (cases "0 < k")
      case True
      have "2 ^ (k + mantissa_bits - 1) \<le> x * 2 ^ min_exponent"
        using ulp_exponent(2) [OF assms] True unfolding k_def by simp
      moreover have "k + mantissa_bits - 1 = (mantissa_bits - 1) + k"
        by (simp add: mantissa_bits_def)
      ultimately have "(2::real) ^ (mantissa_bits - 1) * 2 ^ k \<le> x * 2 ^ min_exponent"
        by (simp add: power_add)
      then have "(2::real) ^ (mantissa_bits - 1) \<le> x * 2 ^ min_exponent / 2 ^ k"
        by (simp add: field_simps)
      then have "real_of_int (2 ^ (mantissa_bits - 1)) \<le> y" using y by simp
      then show ?thesis unfolding m_def by (rule rhe_ge)
    next
      case False
      then have "j = min_exponent" by (simp add: j_def)
      with that have "(2::real) ^ min_exponent \<le> real_of_int m"
        by (simp add: r_def field_simps)
      moreover have "(2::real) ^ (mantissa_bits - 1) \<le> 2 ^ min_exponent"
        by (simp add: mantissa_bits_def min_exponent_def)
      ultimately have "(2::real) ^ (mantissa_bits - 1) \<le> real_of_int m" by linarith
      then show ?thesis by simp
    qed
    have "(2::real) ^ mantissa_bits = 2 * 2 ^ (mantissa_bits - 1)"
      by (simp add: mantissa_bits_def)
    moreover from big have "real_of_int (2 ^ (mantissa_bits - 1)) \<le> real_of_int m"
      by (simp only: of_int_le_iff)
    ultimately have h: "1 / (2 * 2 ^ j) \<le> r / 2 ^ mantissa_bits"
      by (simp add: r_def field_simps)
    have "real_of_int m - y \<le> 1 / 2" unfolding m_def by (rule rhe_near)
    then have "(real_of_int m - y) / 2 ^ j \<le> (1 / 2) / 2 ^ j"
      by (rule divide_right_mono) simp
    then have "r - x \<le> 1 / (2 * 2 ^ j)"
      by (simp add: r_def y_def diff_divide_distrib)
    with h show ?thesis by (simp add: algebra_simps)
  qed
  from rd lo hi rel show ?thesis by blast
qed

lemma round_double_int:
  assumes "0 \<le> n" "n < 2 ^ mantissa_bits"
  shows "round_double (real_of_int n) = Some (real_of_int n)"
proof -
  have "real_of_int n < real_of_int (2 ^ mantissa_bits)"
    using assms(2) by (simp only: of_int_less_iff)
  then have a: "(0::real) \<le> real_of_int n" "real_of_int n < 2 ^ mantissa_bits"
    using assms(1) by simp_all
  define k where "k = nat (bitlen \<lfloor>\<bar>real_of_int n\<bar> * 2 ^ min_exponent\<rfloor> - int mantissa_bits)"
  define j where "j = min_exponent - k"
  have kle: "k \<le> min_exponent"
    unfolding k_def using a by (rule ulp_exponent(1))
  then have mj: "min_exponent = j + k" by (simp add: j_def)
  have p: "(2::real) ^ min_exponent = 2 ^ j * 2 ^ k"
    by (simp add: mj power_add)
  have y: "real_of_int n * 2 ^ min_exponent / 2 ^ k = real_of_int (n * 2 ^ j)"
    by (simp add: p)
  have "real_of_int n < 2 ^ max_exponent"
    using a(2) by (rule less_trans) (simp add: mantissa_bits_def max_exponent_def)
  then have fin: "\<not> 2 ^ max_exponent \<le> \<bar>real_of_int n\<bar>" using assms(1) by simp
  have r: "real_of_int (n * 2 ^ j) * 2 ^ k / 2 ^ min_exponent = real_of_int n"
    by (simp add: p)
  show ?thesis
    unfolding round_double_def Let_def k_def [symmetric] y rhe_int r
    using fin by simp
qed

lemma round_double_normal:
  assumes "j \<le> min_exponent" "(0::real) \<le> x"
    and "2 ^ (mantissa_bits - 1) \<le> x * 2 ^ j" and "x * 2 ^ j < 2 ^ mantissa_bits"
  shows "round_double x = Some (real_of_int (round_half_even (x * 2 ^ j)) / 2 ^ j)"
proof -
  define k where "k = min_exponent - j"
  let ?K = "\<lfloor>\<bar>x\<bar> * 2 ^ min_exponent\<rfloor>"
  define m where "m = round_half_even (x * 2 ^ j)"
  have mj: "min_exponent = j + k" using assms(1) by (simp add: k_def)
  have p: "(2::real) ^ min_exponent = 2 ^ j * 2 ^ k"
    by (simp add: mj power_add)
  have mb: "0 < mantissa_bits" by (simp add: mantissa_bits_def)
  have "(2::real) ^ (mantissa_bits - 1) * 2 ^ k \<le> x * 2 ^ j * 2 ^ k"
    using assms(3) by (rule mult_right_mono) simp
  then have "real_of_int (2 ^ (mantissa_bits - 1 + k)) \<le> \<bar>x\<bar> * 2 ^ min_exponent"
    using assms(2) by (simp add: p power_add mult.assoc)
  then have lo: "2 ^ (mantissa_bits - 1 + k) \<le> ?K" by (simp only: le_floor_iff)
  have "x * 2 ^ j * 2 ^ k < 2 ^ mantissa_bits * 2 ^ k"
    using assms(4) by (rule mult_strict_right_mono) simp
  then have "\<bar>x\<bar> * 2 ^ min_exponent < real_of_int (2 ^ (mantissa_bits + k))"
    using assms(2) by (simp add: p power_add mult.assoc)
  then have hi: "?K < 2 ^ (mantissa_bits + k)" by (simp only: floor_less_iff)
  have "bitlen ?K \<le> int (mantissa_bits + k)"
    using hi by (simp add: bitlen_le_iff_power del: of_nat_add)
  moreover have "int (mantissa_bits + k) \<le> bitlen ?K"
  proof -
    have "nat (int (mantissa_bits + k)) - 1 = mantissa_bits - 1 + k" using mb by simp
    with lo show ?thesis by (simp add: bitlen_ge_iff_power del: of_nat_add)
  qed
  ultimately have "bitlen ?K = int (mantissa_bits + k)" by simp
  then have k: "nat (bitlen ?K - int mantissa_bits) = k" by simp
  have y: "x * 2 ^ min_exponent / 2 ^ k = x * 2 ^ j"
    by (simp add: p)
  have r: "real_of_int m * 2 ^ k / 2 ^ min_exponent = real_of_int m / 2 ^ j"
    by (simp add: p)
  have "x * 2 ^ j \<le> real_of_int (2 ^ mantissa_bits)" using assms(4) by simp
  then have "m \<le> 2 ^ mantissa_bits" unfolding m_def by (rule rhe_le)
  then have "real_of_int m \<le> real_of_int (2 ^ mantissa_bits)" by (simp only: of_int_le_iff)
  then have m1: "real_of_int m \<le> 2 ^ mantissa_bits" by simp
  have "real_of_int 0 \<le> x * 2 ^ j" using assms(2) by simp
  then have "0 \<le> m" unfolding m_def by (rule rhe_ge)
  then have m0: "0 \<le> real_of_int m" by simp
  have "real_of_int m / 2 ^ j \<le> real_of_int m / 1"
    using m0 by (intro divide_left_mono) simp_all
  with m1 have "real_of_int m / 2 ^ j \<le> 2 ^ mantissa_bits" by linarith
  also have "(2::real) ^ mantissa_bits < 2 ^ max_exponent"
    by (simp add: mantissa_bits_def max_exponent_def)
  finally have fin: "\<not> 2 ^ max_exponent \<le> \<bar>real_of_int m / 2 ^ j\<bar>" using m0 by simp
  show ?thesis
    unfolding round_double_def Let_def k y m_def [symmetric] r
    using fin by simp
qed

lemma float_mul_int_small:
  assumes "0 \<le> n" "n < 2 ^ mantissa_bits"
  shows "float_mul_int a n = Inr (round_double (a * real_of_int n))"
  by (simp add: float_mul_int_def float_of_int_def round_double_int [OF assms])

text \<open>
  Claim C7, as the code has it: for \<open>0 \<le> n < 2 ^ 53\<close>, proportions that are not negative
  and sum to less than one, and any draw of the permutation, \<open>spliting_indices\<close>
  returns three index lists that are pairwise disjoint and cover \<open>{0, ..., n-1}\<close>. The
  validation and test lists have the sizes \<open>int(val_pct * n)\<close> and \<open>int(test_pct * n)\<close>
  of the float products, and the training list has the rest. Each of the two sizes is
  the floor of the exact product, or one more than it when the float product is rounded up
  to the next whole number.
\<close>

theorem spliting_indices_partition:
  assumes "0 \<le> n" "n < 2 ^ mantissa_bits"
    and "0 \<le> val_pct" "0 \<le> test_pct" "val_pct + test_pct < 1"
    and "mset perm = mset [0..<nat n]"
  shows "\<exists>train val test val_product test_product.
           spliting_indices perm n val_pct test_pct = Inr (train, val, test) \<and>
           set train \<inter> set val = {} \<and> set train \<inter> set test = {} \<and> set val \<inter> set test = {} \<and>
           set train \<union> set val \<union> set test = {0..<nat n} \<and>
           float_mul_int val_pct n = Inr (Some val_product) \<and>
           float_mul_int test_pct n = Inr (Some test_product) \<and>
           int (length val) = \<lfloor>val_product\<rfloor> \<and>
           int (length test) = \<lfloor>test_product\<rfloor> \<and>
           int (length train) = n - \<lfloor>val_product\<rfloor> - \<lfloor>test_product\<rfloor> \<and>
           (\<lfloor>val_product\<rfloor> = \<lfloor>val_pct * real_of_int n\<rfloor> \<or>
            val_product = real_of_int \<lfloor>val_pct * real_of_int n\<rfloor> + 1) \<and>
           (\<lfloor>test_product\<rfloor> = \<lfloor>test_pct * real_of_int n\<rfloor> \<or>
            test_product = real_of_int \<lfloor>test_pct * real_of_int n\<rfloor> + 1)"
proof -
  define u where "u = 1 - 1 / (2::real) ^ mantissa_bits"
  have nr: "real_of_int n < 2 ^ mantissa_bits"
  proof -
    have "real_of_int n < real_of_int (2 ^ mantissa_bits)"
      using assms(2) by (simp only: of_int_less_iff)
    then show ?thesis by simp
  qed
  have prod: "\<exists>p. round_double (c * real_of_int n) = Some p \<and> 0 \<le> \<lfloor>p\<rfloor> \<and>
       real_of_int \<lfloor>p\<rfloor> * u \<le> c * real_of_int n \<and>
       (\<lfloor>p\<rfloor> = \<lfloor>c * real_of_int n\<rfloor> \<or> p = real_of_int \<lfloor>c * real_of_int n\<rfloor> + 1)"
    if c: "0 \<le> c" "c < 1" for c
  proof -
    let ?x = "c * real_of_int n"
    have x0: "0 \<le> ?x" using c(1) assms(1) by simp
    have "?x \<le> 1 * real_of_int n" using c(2) assms(1) by (intro mult_right_mono) simp_all
    with nr have "?x < 2 ^ mantissa_bits" by linarith
    from round_double_near [OF x0 this] obtain p where
      p: "round_double ?x = Some p" "real_of_int \<lfloor>?x\<rfloor> \<le> p" "p \<le> real_of_int \<lfloor>?x\<rfloor> + 1"
        "1 \<le> p \<longrightarrow> p * u \<le> ?x"
      unfolding u_def by blast
    have f0: "0 \<le> \<lfloor>?x\<rfloor>" using x0 by simp
    with p(2) have p0: "0 \<le> p" by linarith
    then have fp0: "0 \<le> \<lfloor>p\<rfloor>" by simp
    have u0: "0 \<le> u" "u \<le> 1" by (simp_all add: u_def)
    have "real_of_int \<lfloor>p\<rfloor> * u \<le> ?x"
    proof (cases "1 \<le> p")
      case True
      with p(4) have "p * u \<le> ?x" by simp
      moreover have "real_of_int \<lfloor>p\<rfloor> * u \<le> p * u"
        using u0(1) by (intro mult_right_mono) simp_all
      ultimately show ?thesis by linarith
    next
      case False
      with p0 have "\<lfloor>p\<rfloor> = 0" by (simp add: floor_eq_iff)
      with x0 show ?thesis by simp
    qed
    moreover have "\<lfloor>p\<rfloor> = \<lfloor>?x\<rfloor> \<or> p = real_of_int \<lfloor>?x\<rfloor> + 1"
    proof (cases "p = real_of_int \<lfloor>?x\<rfloor> + 1")
      case True
      then show ?thesis by simp
    next
      case False
      with p(3) have "p < real_of_int \<lfloor>?x\<rfloor> + 1" by simp
      with p(2) have "\<lfloor>p\<rfloor> = \<lfloor>?x\<rfloor>" by (simp add: floor_eq_iff)
      then show ?thesis by simp
    qed
    ultimately show ?thesis using p(1) fp0 by blast
  qed
  have v1: "val_pct < 1" and t1: "test_pct < 1" using assms(3-5) by simp_all
  from prod [OF assms(3) v1] obtain pv where
    pv: "round_double (val_pct * real_of_int n) = Some pv" "0 \<le> \<lfloor>pv\<rfloor>"
      "real_of_int \<lfloor>pv\<rfloor> * u \<le> val_pct * real_of_int n"
      "\<lfloor>pv\<rfloor> = \<lfloor>val_pct * real_of_int n\<rfloor> \<or> pv = real_of_int \<lfloor>val_pct * real_of_int n\<rfloor> + 1"
    by blast
  from prod [OF assms(4) t1] obtain pt where
    pt: "round_double (test_pct * real_of_int n) = Some pt" "0 \<le> \<lfloor>pt\<rfloor>"
      "real_of_int \<lfloor>pt\<rfloor> * u \<le> test_pct * real_of_int n"
      "\<lfloor>pt\<rfloor> = \<lfloor>test_pct * real_of_int n\<rfloor> \<or> pt = real_of_int \<lfloor>test_pct * real_of_int n\<rfloor> + 1"
    by blast
  define n_val where "n_val = \<lfloor>pv\<rfloor>"
  define n_test where "n_test = \<lfloor>pt\<rfloor>"
  define k1 where "k1 = nat (n - n_val - n_test)"
  define k2 where "k2 = nat (n - n_test)"
  have v0: "0 \<le> n_val" and t0: "0 \<le> n_test"
    using pv(2) pt(2) by (simp_all add: n_val_def n_test_def)
  have le: "n_val + n_test \<le> n"
  proof (rule ccontr)
    assume "\<not> n_val + n_test \<le> n"
    then have "n + 1 \<le> n_val + n_test" by simp
    then have "real_of_int (n + 1) \<le> real_of_int (n_val + n_test)" by (simp only: of_int_le_iff)
    moreover have "0 \<le> u" by (simp add: u_def)
    ultimately have "real_of_int (n + 1) * u \<le> real_of_int (n_val + n_test) * u"
      by (rule mult_right_mono)
    also have "\<dots> \<le> (val_pct + test_pct) * real_of_int n"
      using pv(3) pt(3) by (simp add: n_val_def n_test_def algebra_simps)
    finally have c: "real_of_int (n + 1) * u \<le> (val_pct + test_pct) * real_of_int n" .
    have "real_of_int (n + 1) * u < real_of_int n"
    proof (cases "n = 0")
      case True
      with c have "u \<le> 0" by simp
      then have "(1::real) \<le> 1 / 2 ^ mantissa_bits" by (simp add: u_def)
      then show ?thesis by (simp add: mantissa_bits_def)
    next
      case False
      with assms(1) have "0 < real_of_int n" by simp
      with assms(5) have "(val_pct + test_pct) * real_of_int n < 1 * real_of_int n"
        by (intro mult_strict_right_mono)
      with c show ?thesis by simp
    qed
    then have "1 < (real_of_int n + 1) / 2 ^ mantissa_bits"
      by (simp add: u_def algebra_simps)
    then have "2 ^ mantissa_bits < real_of_int n + 1"
      by (simp add: field_simps)
    then have "real_of_int (2 ^ mantissa_bits) < real_of_int (n + 1)" by simp
    then have "2 ^ mantissa_bits < n + 1" by (simp only: of_int_less_iff)
    with assms(2) show False by simp
  qed
  have len: "length perm = nat n"
    using assms(6) by (metis length_upt mset_eq_length minus_nat.diff_0)
  have dist: "distinct perm"
    using assms(6) by (metis distinct_upt mset_eq_imp_distinct_iff)
  have st: "set perm = {0..<nat n}"
    using assms(6) by (metis mset_eq_setD atLeastLessThan_upt)
  have k: "k1 \<le> k2" "k2 \<le> nat n"
    using v0 t0 le by (simp_all add: k1_def k2_def)
  have fv: "float_mul_int val_pct n = Inr (Some pv)"
    and ft: "float_mul_int test_pct n = Inr (Some pt)"
    by (simp_all add: float_mul_int_small [OF assms(1,2)] pv(1) pt(1))
  have py: "py_int (Some pv) = Inr n_val" "py_int (Some pt) = Inr n_test"
    using pv(2) pt(2) by (auto simp: py_int_def n_val_def n_test_def)
  have res: "spliting_indices perm n val_pct test_pct =
      Inr (take k1 perm, drop k1 (take k2 perm), drop k2 perm)"
  proof -
    have "n - n_val - n_test + n_val = n - n_test" by simp
    then show ?thesis
      using v0 t0 le
      by (simp add: spliting_indices_def fv ft py Let_def py_slice_nonneg py_slice_to
          py_slice_from k1_def k2_def)
  qed
  have split: "take k1 perm @ drop k1 (take k2 perm) @ drop k2 perm = perm"
    using k(1) by (rule three_way_split)
  have d3: "distinct (take k1 perm @ drop k1 (take k2 perm) @ drop k2 perm)"
    using dist split by simp
  have un: "set (take k1 perm) \<union> set (drop k1 (take k2 perm)) \<union> set (drop k2 perm) = {0..<nat n}"
    using st split by (metis set_append sup_assoc)
  have kl: "k1 \<le> length perm" "k2 \<le> length perm"
    using k len by simp_all
  have l2: "int (length (drop k1 (take k2 perm))) = n_val"
  proof -
    have "length (drop k1 (take k2 perm)) = k2 - k1" using kl by simp
    then show ?thesis using v0 t0 le by (simp add: k1_def k2_def)
  qed
  have l3: "int (length (drop k2 perm)) = n_test"
    using kl len v0 t0 le by (simp add: k2_def)
  have l1: "int (length (take k1 perm)) = n - n_val - n_test"
  proof -
    have "length (take k1 perm) = k1" using kl by simp
    then show ?thesis using v0 t0 le by (simp add: k1_def)
  qed
  from d3 have "set (take k1 perm) \<inter> set (drop k1 (take k2 perm)) = {}"
    "set (take k1 perm) \<inter> set (drop k2 perm) = {}"
    "set (drop k1 (take k2 perm)) \<inter> set (drop k2 perm) = {}"
    by auto
  with res un l1 l2 l3 fv ft pv(4) pt(4) show ?thesis
    unfolding n_val_def n_test_def by blast
qed

theorem spliting_indices_partition_witness:
  "(0::int) \<le> 10 \<and> (10::int) < 2 ^ mantissa_bits \<and>
   (0::real) \<le> 1 / 4 \<and> (0::real) \<le> 1 / 8 \<and> (1 / 4 + 1 / 8 :: real) < 1 \<and>
   mset [3, 1, 4, 0, 2, 6, 5, 9, 8, 7] = mset [0..<nat 10] \<and>
   spliting_indices [3, 1, 4, 0, 2, 6, 5, 9, 8, 7] 10 (1 / 4) (1 / 8) =
     Inr ([3, 1, 4, 0, 2, 6, 5], [9, 8], [7]) \<and>
   set [3, 1, 4, 0, 2, 6, 5] \<union> set [9, 8] \<union> set [7 :: nat] = {0..<nat 10}"
proof -
  have m: "mset [3, 1, 4, 0, 2, 6, 5, 9, 8, 7] = mset [0..<nat 10]"
    by (simp add: upt_rec eval_nat_numeral)
  have n: "(0::int) \<le> 10" "(10::int) < 2 ^ mantissa_bits"
    by (simp_all add: mantissa_bits_def)
  have v: "round_double (1 / 4 * real_of_int 10) = Some (5 / 2)"
    using round_double_normal [of 51 "1 / 4 * real_of_int 10"]
    by (simp add: mantissa_bits_def min_exponent_def round_half_even_def)
  have t: "round_double (1 / 8 * real_of_int 10) = Some (5 / 4)"
    using round_double_normal [of 52 "1 / 8 * real_of_int 10"]
    by (simp add: mantissa_bits_def min_exponent_def round_half_even_def)
  have fv: "float_mul_int (1 / 4) 10 = Inr (Some (5 / 2))"
    and ft: "float_mul_int (1 / 8) 10 = Inr (Some (5 / 4))"
    unfolding float_mul_int_small [OF n] v t by simp_all
  have e: "spliting_indices [3, 1, 4, 0, 2, 6, 5, 9, 8, 7] 10 (1 / 4) (1 / 8) =
      Inr ([3, 1, 4, 0, 2, 6, 5], [9, 8], [7])"
    by (simp add: spliting_indices_def fv ft py_int_def py_slice_def slice_bound_def Let_def)
  have "\<exists>train val test.
      spliting_indices [3, 1, 4, 0, 2, 6, 5, 9, 8, 7] 10 (1 / 4) (1 / 8) =
        Inr (train, val, test) \<and>
      set train \<union> set val \<union> set test = {0..<nat 10}"
    using spliting_indices_partition [of 10 "1 / 4" "1 / 8" "[3, 1, 4, 0, 2, 6, 5, 9, 8, 7]", OF n _ _ _ m]
    by auto
  then have "set [3, 1, 4, 0, 2, 6, 5] \<union> set [9, 8] \<union> set [7 :: nat] = {0..<nat 10}"
    unfolding e by blast
  with m n e show ?thesis by simp
qed

text \<open>
  The sizes as the specification words them (the floors of the products) are not always
  the sizes returned. With \<open>n = 20\<close> and the float \<open>0.15\<close>, which is
  \<open>5404319552844595 / 2 ^ 55\<close>, the product is a little below 3 and its floor is 2, but
  the float product is 3.0 and the validation list has 3 entries. With \<open>n = 50\<close> and
  the float \<open>0.58\<close>, the floor of \<open>0.58 * 50\<close> over the reals is 29, but the float
  product is below 29 and the validation list has 28 entries.
\<close>

theorem spliting_indices_sizes_counterexample:
  "round_double (15 / 100) = Some (5404319552844595 / 2 ^ 55) \<and>
   spliting_indices [0..<20] 20 (5404319552844595 / 2 ^ 55) (5404319552844595 / 2 ^ 55) =
     Inr ([0..<14], [14..<17], [17..<20]) \<and>
   length [14..<17] = 3 \<and>
   \<lfloor>5404319552844595 / 2 ^ 55 * real_of_int 20\<rfloor> = 2 \<and>
   round_double (58 / 100) = Some (5224175567749775 / 2 ^ 53) \<and>
   spliting_indices [0..<50] 50 (5224175567749775 / 2 ^ 53) (5404319552844595 / 2 ^ 55) =
     Inr ([0..<15], [15..<43], [43..<50]) \<and>
   length [15..<43] = 28 \<and>
   \<lfloor>58 / 100 * real_of_int 50\<rfloor> = 29"
proof -
  have n: "(0::int) \<le> 20" "(20::int) < 2 ^ mantissa_bits"
    "(0::int) \<le> 50" "(50::int) < 2 ^ mantissa_bits"
    by (simp_all add: mantissa_bits_def)
  have a: "round_double (15 / 100) = Some (5404319552844595 / 2 ^ 55)"
    using round_double_normal [of 55 "15 / 100"]
    by (simp add: mantissa_bits_def min_exponent_def round_half_even_def)
  have b: "round_double (5404319552844595 / 2 ^ 55 * real_of_int 20) = Some 3"
    using round_double_normal [of 51 "5404319552844595 / 2 ^ 55 * real_of_int 20"]
    by (simp add: mantissa_bits_def min_exponent_def round_half_even_def)
  have fb: "float_mul_int (5404319552844595 / 2 ^ 55) 20 = Inr (Some 3)"
    unfolding float_mul_int_small [OF n(1,2)] b by simp
  have c: "spliting_indices [0..<20] 20 (5404319552844595 / 2 ^ 55) (5404319552844595 / 2 ^ 55) =
     Inr ([0..<14], [14..<17], [17..<20])"
    unfolding spliting_indices_def fb
    by (simp add: py_int_def py_slice_def slice_bound_def Let_def)
  have d: "round_double (58 / 100) = Some (5224175567749775 / 2 ^ 53)"
    using round_double_normal [of 53 "58 / 100"]
    by (simp add: mantissa_bits_def min_exponent_def round_half_even_def)
  have e: "round_double (5224175567749775 / 2 ^ 53 * real_of_int 50) =
      Some (8162774324609023 / 2 ^ 48)"
    using round_double_normal [of 48 "5224175567749775 / 2 ^ 53 * real_of_int 50"]
    by (simp add: mantissa_bits_def min_exponent_def round_half_even_def)
  have f: "round_double (5404319552844595 / 2 ^ 55 * real_of_int 50) = Some (15 / 2)"
    using round_double_normal [of 50 "5404319552844595 / 2 ^ 55 * real_of_int 50"]
    by (simp add: mantissa_bits_def min_exponent_def round_half_even_def)
  have fe: "float_mul_int (5224175567749775 / 2 ^ 53) 50 = Inr (Some (8162774324609023 / 2 ^ 48))"
    and ff: "float_mul_int (5404319552844595 / 2 ^ 55) 50 = Inr (Some (15 / 2))"
    unfolding float_mul_int_small [OF n(3,4)] e f by simp_all
  have g: "spliting_indices [0..<50] 50 (5224175567749775 / 2 ^ 53) (5404319552844595 / 2 ^ 55) =
     Inr ([0..<15], [15..<43], [43..<50])"
    unfolding spliting_indices_def fe ff
    by (simp add: py_int_def py_slice_def slice_bound_def Let_def)
  have h: "\<lfloor>5404319552844595 / 2 ^ 55 * real_of_int 20\<rfloor> = 2"
    "\<lfloor>58 / 100 * real_of_int 50 :: real\<rfloor> = 29"
    by simp_all
  from a c d g h show ?thesis by simp
qed

section \<open>Properties of models.py\<close>

subsection \<open>SinusoidalPositionEmbeddings: width and values\<close>

lemma sinus_ok:
  assumes "0 \<le> D" "D div 2 \<noteq> 1"
  shows "\<exists>m. SinusoidalPositionEmbeddings_forward D time = Inr m \<and> length m = length time \<and>
           (\<forall>row\<in>set m. int (length row) = 2 * (D div 2))"
proof -
  have "0 \<le> D div 2" using assms by simp
  then show ?thesis
    using assms by (auto simp: SinusoidalPositionEmbeddings_forward_def torch_arange_def Let_def)
qed

lemma sinus_zero:
  assumes "0 \<le> D" "D div 2 \<noteq> 1"
  shows "SinusoidalPositionEmbeddings_forward D [0] =
           Inr [replicate (nat (D div 2)) 0 @ replicate (nat (D div 2)) 1]"
proof -
  have "0 \<le> D div 2" using assms by simp
  then show ?thesis
    using assms
    by (simp add: SinusoidalPositionEmbeddings_forward_def torch_arange_def Let_def
        map_replicate_const comp_def)
qed

text \<open>
  Claim C9, as the code has it. For \<open>D = 32\<close> and the single time step \<open>0\<close> the output is
  sixteen zeros followed by sixteen ones. For every even \<open>D \<ge> 0\<close> other than 2 and every
  batch of time steps, the output has one row per time step and each row has width \<open>D\<close>.
\<close>

theorem SinusoidalPositionEmbeddings_even:
  "SinusoidalPositionEmbeddings_forward 32 [0] = Inr [replicate 16 0 @ replicate 16 1] \<and>
   (even D \<and> 0 \<le> D \<and> D \<noteq> 2 \<longrightarrow>
      (\<exists>m. SinusoidalPositionEmbeddings_forward D time = Inr m \<and> length m = length time \<and>
           (\<forall>row\<in>set m. int (length row) = D)))"
proof
  show "SinusoidalPositionEmbeddings_forward 32 [0] = Inr [replicate 16 0 @ replicate 16 1]"
    using sinus_zero [of 32] by simp
next
  show "even D \<and> 0 \<le> D \<and> D \<noteq> 2 \<longrightarrow>
      (\<exists>m. SinusoidalPositionEmbeddings_forward D time = Inr m \<and> length m = length time \<and>
           (\<forall>row\<in>set m. int (length row) = D))"
  proof
    assume a: "even D \<and> 0 \<le> D \<and> D \<noteq> 2"
    then have "D div 2 \<noteq> 1" and "2 * (D div 2) = D" by auto
    with a sinus_ok [of D time] show "\<exists>m. SinusoidalPositionEmbeddings_forward D time = Inr m \<and>
        length m = length time \<and> (\<forall>row\<in>set m. int (length row) = D)"
      by auto
  qed
qed

theorem SinusoidalPositionEmbeddings_even_witness:
  "even (4::int) \<and> (0::int) \<le> 4 \<and> (4::int) \<noteq> 2 \<and>
   (\<exists>m. SinusoidalPositionEmbeddings_forward 4 [0, 1, 2] = Inr m \<and> length m = 3 \<and>
        (\<forall>row\<in>set m. int (length row) = 4))"
  using SinusoidalPositionEmbeddings_even [of 4 "[0, 1, 2]"] by (simp add: numeral_3_eq_3)

text \<open>
  The second half of the claim as the specification words it (every even \<open>D\<close>) fails at
  \<open>D = 2\<close>: \<open>half_dim - 1\<close> is zero and the division raises.
\<close>

theorem SinusoidalPositionEmbeddings_dim2_counterexample:
  "even (2::int) \<and> SinusoidalPositionEmbeddings_forward 2 [0] = Inl ZeroDivisionError"
  by (simp add: SinusoidalPositionEmbeddings_forward_def)

text \<open>
  Claim C10, as the code has it: for every odd \<open>D \<ge> 5\<close> and every batch of time steps the
  call returns, raising nothing, a matrix with one row per time step whose rows have width
  \<open>2 * (D div 2) = D - 1\<close>.
\<close>

theorem SinusoidalPositionEmbeddings_odd:
  assumes "odd D" "5 \<le> D"
  shows "\<exists>m. SinusoidalPositionEmbeddings_forward D time = Inr m \<and> length m = length time \<and>
           (\<forall>row\<in>set m. int (length row) = 2 * (D div 2) \<and> int (length row) = D - 1)"
proof -
  from assms have d: "D div 2 \<noteq> 1" "0 \<le> D" by presburger+
  from assms have "2 * (D div 2) = D - 1" by presburger
  with sinus_ok [OF d(2) d(1), of time] show ?thesis by auto
qed

theorem SinusoidalPositionEmbeddings_odd_witness:
  "odd (5::int) \<and> (5::int) \<le> 5 \<and>
   (\<exists>m. SinusoidalPositionEmbeddings_forward 5 [0, 1, 2] = Inr m \<and> length m = 3 \<and>
        (\<forall>row\<in>set m. int (length row) = 4))"
  using SinusoidalPositionEmbeddings_odd [of 5 "[0, 1, 2]"] by (simp add: numeral_3_eq_3)

text \<open>
  The claim as the specification words it (every odd \<open>D \<ge> 3\<close>) fails at \<open>D = 3\<close>:
  \<open>half_dim\<close> is 1 and the division by \<open>half_dim - 1\<close> raises.
\<close>

theorem SinusoidalPositionEmbeddings_dim3_counterexample:
  "odd (3::int) \<and> (3::int) \<le> 3 \<and>
   SinusoidalPositionEmbeddings_forward 3 [0] = Inl ZeroDivisionError"
  by (simp add: SinusoidalPositionEmbeddings_forward_def)

subsection \<open>SimpleUnet: what the constructor builds\<close>

lemma collect_Inr: "collect (map (\<lambda>i. Inr (f i)) xs) = Inr (map f xs)"
  by (induction xs) simp_all

lemma np_item_0: "xs \<noteq> [] \<Longrightarrow> np_item xs 0 = Inr (hd xs)"
  by (cases xs) (simp_all add: np_item_def)

lemma np_item_last: "xs \<noteq> [] \<Longrightarrow> np_item xs (- 1) = Inr (last xs)"
proof -
  assume a: "xs \<noteq> []"
  then have l: "0 < length xs" by simp
  then have "nat (int (length xs) + - 1) = length xs - 1" by arith
  with a l show ?thesis
    by (simp add: np_item_def last_conv_nth Suc_le_eq)
qed

lemma Block_init_ok:
  "dropout_accepted dr \<Longrightarrow>
     Block_init in_ch out_ch ted att up dr = Inr (Block_modules in_ch out_ch ted att up dr)"
  by (simp add: Block_init_def)

lemma SimpleUnet_init_ok:
  assumes "plan \<noteq> []" "dropout_accepted dr"
  shows "SimpleUnet_init plan cin cout ted att dr =
     Inr \<lparr>input_channels = cin,
              output_channels = cout,
              down_channels = plan,
              up_channels = rev plan,
              up_in_channels = last plan # map (\<lambda>i. rev plan ! i * 2) [1..<length plan],
              time_emb_dim = ted,
              time_mlp_seq =
                [SinusoidalPositionEmbeddings (int ted), Linear ted ted, ReLU],
              conv0 = Conv2d cin (hd plan) 3 1 1,
              downs = map (\<lambda>i. Block_modules (plan ! i) (plan ! (i + 1)) ted att False dr)
                   [0..<length plan - 1],
              ups = map (\<lambda>i. Block_modules
                     ((last plan # map (\<lambda>i. rev plan ! i * 2) [1..<length plan]) ! i)
                     (rev plan ! (i + 1)) ted att True dr) [0..<length plan - 1],
              output_conv = Conv2d (hd plan) cout 1 1 0\<rparr>"
  using assms
  by (simp add: SimpleUnet_init_def Let_def np_item_0 np_item_last Block_init_ok
      collect_Inr hd_rev last_rev)

text \<open>
  Claim C3, as the code has it: for every channel plan that is not empty (and a dropout
  rate that \<open>nn.Dropout\<close> accepts) the constructor succeeds; the down path and the up
  path both have \<open>len(plan) - 1\<close> blocks; down block \<open>i\<close> goes from plan entry \<open>i\<close> to
  entry \<open>i + 1\<close>; up block \<open>i\<close> goes to entry \<open>i + 1\<close> of the reversed plan, from twice
  entry \<open>i\<close> of the reversed plan, except up block 0, whose input width is the last plan
  entry alone.
\<close>

theorem SimpleUnet_init_paths:
  assumes "unet_channels \<noteq> []" "dropout_accepted dr"
  shows "\<exists>net. SimpleUnet_init unet_channels cin cout ted att dr = Inr net \<and>
           length (downs net) = length unet_channels - 1 \<and>
           length (ups net) = length unet_channels - 1 \<and>
           up_channels net = rev unet_channels \<and>
           (\<forall>i < length unet_channels - 1.
              downs net ! i =
                Block_modules (unet_channels ! i) (unet_channels ! (i + 1)) ted att False dr \<and>
              ups net ! i =
                Block_modules
                  (if i = 0 then last unet_channels else 2 * (rev unet_channels ! i))
                  (rev unet_channels ! (i + 1)) ted att True dr)"
proof -
  have "(last unet_channels # map (\<lambda>i. rev unet_channels ! i * 2) [1..<length unet_channels]) ! i =
      (if i = 0 then last unet_channels else 2 * (rev unet_channels ! i))"
    if "i < length unet_channels - 1" for i
    using that by (cases i) (simp_all add: nth_Cons')
  then show ?thesis
    by (simp add: SimpleUnet_init_ok [OF assms])
qed

theorem SimpleUnet_init_paths_witness:
  "[64, 128, 256, 512, 1024 :: nat] \<noteq> [] \<and> dropout_accepted None \<and>
   (\<exists>net. SimpleUnet_init [64, 128, 256, 512, 1024] 3 3 32 False None = Inr net \<and>
      length (downs net) = 4 \<and> length (ups net) = 4 \<and>
      ups net ! 0 = Block_modules 1024 512 32 False True None \<and>
      ups net ! 1 = Block_modules 1024 256 32 False True None \<and>
      ups net ! 3 = Block_modules 256 64 32 False True None)"
proof -
  have d: "dropout_accepted None" by (simp add: dropout_accepted_def truthy_def)
  have n: "[64, 128, 256, 512, 1024 :: nat] \<noteq> []" by simp
  from SimpleUnet_init_paths [OF n d, of 3 3 32 False] obtain net where
    net: "SimpleUnet_init [64, 128, 256, 512, 1024] 3 3 32 False None = Inr net"
    "length (downs net) = length [64, 128, 256, 512, 1024 :: nat] - 1"
    "length (ups net) = length [64, 128, 256, 512, 1024 :: nat] - 1"
    and u: "\<forall>i < length [64, 128, 256, 512, 1024 :: nat] - 1.
       ups net ! i =
         Block_modules
           (if i = 0 then last [64, 128, 256, 512, 1024]
            else 2 * (rev [64, 128, 256, 512, 1024] ! i))
           (rev [64, 128, 256, 512, 1024] ! (i + 1)) 32 False True None"
    by blast
  from u have "ups net ! 0 = Block_modules 1024 512 32 False True None"
    "ups net ! 1 = Block_modules 1024 256 32 False True None"
    "ups net ! 3 = Block_modules 256 64 32 False True None"
    by (simp_all add: eval_nat_numeral)
  with net d show ?thesis by simp
qed

text \<open>
  The claim as the specification words it (every channel plan) fails on the empty plan,
  for which the constructor raises IndexError at \<open>self.up_channels[0]\<close>.
\<close>

theorem SimpleUnet_init_empty_counterexample:
  "SimpleUnet_init [] 3 3 32 False None = Inl IndexError"
  by (simp add: SimpleUnet_init_def np_item_def)

subsection \<open>Block: the order of the steps and the shapes\<close>

lemma bind_exn_InrE:
  assumes "bind_exn m f = Inr y"
  obtains v where "m = Inr v" "f v = Inr y"
  using assms by (cases m) simp_all

lemma layer_InrD: "layer name m x = Inr h \<Longrightarrow>
    expr h = Layer name m (expr x) \<and> module_shape m (shape x) = Inr (shape h)"
  by (auto simp: layer_def elim!: bind_exn_InrE)

lemma tensor_add_InrD: "tensor_add a b = Inr h \<Longrightarrow>
    expr h = Op ''+'' [expr a, expr b] \<and> broadcast_shapes (shape a) (shape b) = Inr (shape h)"
  by (auto simp: tensor_add_def elim!: bind_exn_InrE)

lemma tensor_mul_InrD: "tensor_mul a b = Inr h \<Longrightarrow>
    expr h = Op ''*'' [expr a, expr b] \<and> broadcast_shapes (shape a) (shape b) = Inr (shape h)"
  by (auto simp: tensor_mul_def elim!: bind_exn_InrE)

lemma torch_cat_InrD: "torch_cat a b = Inr h \<Longrightarrow>
    expr h = Op ''torch.cat'' [expr a, expr b] \<and> cat_dim1_shape (shape a) (shape b) = Inr (shape h)"
  by (auto simp: torch_cat_def elim!: bind_exn_InrE)

lemma torch_mean_InrD: "torch_mean a = Inr h \<Longrightarrow>
    expr h = Op ''torch.mean'' [expr a] \<and> reduce_dim1_shape False (shape a) = Inr (shape h)"
  by (auto simp: torch_mean_def elim!: bind_exn_InrE)

lemma torch_max_InrD: "torch_max a = Inr h \<Longrightarrow>
    expr h = Op ''torch.max'' [expr a] \<and> reduce_dim1_shape True (shape a) = Inr (shape h)"
  by (auto simp: torch_max_def elim!: bind_exn_InrE)

lemma torch_sigmoid_InrD: "torch_sigmoid a = Inr h \<Longrightarrow>
    expr h = Op ''torch.sigmoid'' [expr a] \<and> shape h = shape a"
  by (auto simp: torch_sigmoid_def)

lemma extend_last2_InrD: "extend_last2 a = Inr h \<Longrightarrow>
    expr h = Op ''[..., None, None]'' [expr a] \<and> shape h = shape a @ [1, 1]"
  by (auto simp: extend_last2_def)

lemma SpatialAttention_forward_expr:
  assumes "SpatialAttention_forward sa h = Inr g"
  shows "expr g = Op ''*'' [expr h, Op ''torch.sigmoid''
                   [Layer ''conv'' (conv sa)
                      (Op ''torch.cat'' [Op ''torch.mean'' [expr h], Op ''torch.max'' [expr h]])]]"
  using assms unfolding SpatialAttention_forward_def
  by (elim bind_exn_InrE)
     (auto dest!: layer_InrD tensor_mul_InrD torch_cat_InrD torch_mean_InrD torch_max_InrD
        torch_sigmoid_InrD)

lemma Block_train_modules:
  "Block_train mode (Block_modules in_ch out_ch ted att up dr) =
     (Block_modules in_ch out_ch ted att up dr)
       \<lparr>bnorm1 := BatchNorm2d out_ch mode, bnorm2 := BatchNorm2d out_ch mode,
        drop' := (if truthy dr then Some (Dropout (the dr) mode) else None)\<rparr>"
  by (simp add: Block_train_def Block_modules_def)

lemma Block_forward_expr:
  assumes "Block_forward (Block_train mode (Block_modules in_ch out_ch ted att up dr)) x t = Inr y"
  shows "expr y = Block_steps in_ch out_ch ted att up dr mode (expr x) (expr t)"
  using assms unfolding Block_forward_def Block_train_modules
  apply (elim bind_exn_InrE)
  apply (simp add: Block_modules_def SpatialAttention_init_def Block_steps_def Let_def
      split: if_splits)
     apply (auto dest!: layer_InrD tensor_add_InrD extend_last2_InrD SpatialAttention_forward_expr)
  done

lemma conv3_shape:
  "0 < H \<Longrightarrow> 0 < W \<Longrightarrow> 0 < ci \<Longrightarrow> 0 < co \<Longrightarrow> c = ci \<Longrightarrow>
     module_shape (Conv2d ci co 3 (Suc 0) (Suc 0)) [B, c, H, W] = Inr [B, co, H, W]"
  by (simp add: module_shape_def conv_shape_def conv2d_shape_def conv_out_def)

lemma conv7_shape:
  "0 < H \<Longrightarrow> 0 < W \<Longrightarrow> 0 < co \<Longrightarrow>
     module_shape (Conv2d 2 co 7 (Suc 0) 3) [B, Suc (Suc 0), H, W] = Inr [B, co, H, W]"
  by (simp add: module_shape_def conv_shape_def conv2d_shape_def conv_out_def)

lemma conv1x1_shape:
  "0 < H \<Longrightarrow> 0 < W \<Longrightarrow> 0 < ci \<Longrightarrow> 0 < co \<Longrightarrow> c = ci \<Longrightarrow>
     module_shape (Conv2d ci co (Suc 0) (Suc 0) 0) [B, c, H, W] = Inr [B, co, H, W]"
  by (simp add: module_shape_def conv_shape_def conv2d_shape_def conv_out_def)

lemma down_shape:
  assumes "2 \<le> H" "2 \<le> W" "0 < c"
  shows "module_shape (Conv2d c c 4 2 (Suc 0)) [B, c, H, W] = Inr [B, c, H div 2, W div 2]"
proof -
  have "(H + 2 - 4) div 2 + 1 = H div 2" "(W + 2 - 4) div 2 + 1 = W div 2"
    using assms by presburger+
  with assms show ?thesis
    by (simp add: module_shape_def conv_shape_def conv2d_shape_def conv_out_def)
qed

lemma up_shape:
  assumes "0 < H" "0 < W" "0 < c"
  shows "module_shape (ConvTranspose2d c c 4 2 (Suc 0)) [B, c, H, W] = Inr [B, c, 2 * H, 2 * W]"
proof -
  have "nat ((int H - 1) * 2 - 2 + 4) = 2 * H" "nat ((int W - 1) * 2 - 2 + 4) = 2 * W"
    "\<not> (int H - 1) * 2 - 2 + 4 < 0" "\<not> (int W - 1) * 2 - 2 + 4 < 0"
    using assms by auto
  with assms show ?thesis
    by (simp add: module_shape_def conv_shape_def conv_transpose2d_shape_def
        conv_transpose_out_def Let_def)
qed

lemma bn_shape:
  "(mode \<longrightarrow> B * H * W \<noteq> 1) \<Longrightarrow> c' = c \<Longrightarrow>
     module_shape (BatchNorm2d c mode) [B, c', H, W] = Inr [B, c, H, W]"
  by (auto simp: module_shape_def batch_norm2d_shape_def)

lemma linear_shape2: "i' = i \<Longrightarrow> module_shape (Linear i out) [B, i'] = Inr [B, out]"
  by (simp add: module_shape_def linear_shape_def)

lemma relu_shape: "module_shape ReLU s = Inr s"
  by (simp add: module_shape_def)

lemma dropout_shape: "module_shape (Dropout p mode) s = Inr s"
  by (simp add: module_shape_def)

lemma broadcast_time: "broadcast_shapes [B, c, H, W] [B, c, Suc 0, Suc 0] = Inr [B, c, H, W]"
  by (simp add: broadcast_shapes_def)

lemma broadcast_gate: "broadcast_shapes [B, c, H, W] [B, Suc 0, H, W] = Inr [B, c, H, W]"
  by (simp add: broadcast_shapes_def)

lemma SpatialAttention_forward_shape:
  assumes "shape h = [B, c, H, W]" "0 < c" "0 < H" "0 < W"
  shows "\<exists>g. SpatialAttention_forward (SpatialAttention_init 7) h = Inr g \<and>
           shape g = [B, c, H, W]"
  using assms
  by (simp add: SpatialAttention_forward_def SpatialAttention_init_def torch_mean_def
      torch_max_def reduce_dim1_shape_def torch_cat_def cat_dim1_shape_def layer_def
      conv7_shape torch_sigmoid_def tensor_mul_def broadcast_gate)

lemma Block_fields:
  "conv1 (Block_train mode (Block_modules in_ch out_ch ted att up dr)) = Conv2d in_ch out_ch 3 1 1"
  "relu (Block_train mode (Block_modules in_ch out_ch ted att up dr)) = ReLU"
  "bnorm1 (Block_train mode (Block_modules in_ch out_ch ted att up dr)) = BatchNorm2d out_ch mode"
  "bnorm2 (Block_train mode (Block_modules in_ch out_ch ted att up dr)) = BatchNorm2d out_ch mode"
  "time_mlp (Block_train mode (Block_modules in_ch out_ch ted att up dr)) = Linear ted out_ch"
  "conv2 (Block_train mode (Block_modules in_ch out_ch ted att up dr)) = Conv2d out_ch out_ch 3 1 1"
  "attention (Block_train mode (Block_modules in_ch out_ch ted att up dr)) = att"
  "dropout (Block_train mode (Block_modules in_ch out_ch ted att up dr)) = dr"
  "transform (Block_train mode (Block_modules in_ch out_ch ted att up dr)) =
     (if up then ConvTranspose2d out_ch out_ch 4 2 1 else Conv2d out_ch out_ch 4 2 1)"
  "spatial_attention (Block_train mode (Block_modules in_ch out_ch ted att up dr)) =
     (if att then Some (SpatialAttention_init 7) else None)"
  "drop' (Block_train mode (Block_modules in_ch out_ch ted att up dr)) =
     (if truthy dr then Some (Dropout (the dr) mode) else None)"
  by (simp_all add: Block_train_def Block_modules_def)

lemma Block_forward_shape:
  assumes "shape x = [B, in_ch, H, W]" "shape t = [B, ted]" "0 < H" "0 < W"
    and "up \<or> (2 \<le> H \<and> 2 \<le> W)"
    and "mode \<longrightarrow> B * H * W \<noteq> 1"
    and "0 < in_ch" "0 < out_ch"
  shows "\<exists>y. Block_forward (Block_train mode (Block_modules in_ch out_ch ted att up dr)) x t = Inr y \<and>
           shape y = [B, out_ch, if up then 2 * H else H div 2, if up then 2 * W else W div 2]"
proof -
  let ?b = "Block_train mode (Block_modules in_ch out_ch ted att up dr)"
  obtain h1 where h1: "layer ''conv1'' (conv1 ?b) x = Inr h1" "shape h1 = [B, out_ch, H, W]"
    using assms by (simp add: Block_fields layer_def conv3_shape)
  obtain h2 where h2: "layer ''relu'' (relu ?b) h1 = Inr h2" "shape h2 = [B, out_ch, H, W]"
    using h1(2) by (simp add: Block_fields layer_def relu_shape)
  obtain h3 where h3: "layer ''bnorm1'' (bnorm1 ?b) h2 = Inr h3" "shape h3 = [B, out_ch, H, W]"
    using h2(2) assms(6) by (simp add: Block_fields layer_def bn_shape)
  obtain t1 where t1: "layer ''time_mlp'' (time_mlp ?b) t = Inr t1" "shape t1 = [B, out_ch]"
    using assms(2) by (simp add: Block_fields layer_def linear_shape2)
  obtain t2 where t2: "layer ''relu'' (relu ?b) t1 = Inr t2" "shape t2 = [B, out_ch]"
    using t1(2) by (simp add: Block_fields layer_def relu_shape)
  obtain t3 where t3: "extend_last2 t2 = Inr t3" "shape t3 = [B, out_ch, 1, 1]"
    using t2(2) by (simp add: extend_last2_def)
  obtain h4 where h4: "tensor_add h3 t3 = Inr h4" "shape h4 = [B, out_ch, H, W]"
    using h3(2) t3(2) by (simp add: tensor_add_def broadcast_time)
  obtain h5 where h5: "layer ''conv2'' (conv2 ?b) h4 = Inr h5" "shape h5 = [B, out_ch, H, W]"
    using h4(2) assms(3,4,8) by (simp add: Block_fields layer_def conv3_shape)
  obtain h6 where h6: "layer ''relu'' (relu ?b) h5 = Inr h6" "shape h6 = [B, out_ch, H, W]"
    using h5(2) by (simp add: Block_fields layer_def relu_shape)
  obtain h where h: "layer ''bnorm2'' (bnorm2 ?b) h6 = Inr h" and sh: "shape h = [B, out_ch, H, W]"
    using h6(2) assms(6) by (simp add: Block_fields layer_def bn_shape)
  have "\<exists>h'. (if attention ?b then
          (case spatial_attention ?b of
             None \<Rightarrow> Inl AttributeError
           | Some sa \<Rightarrow> SpatialAttention_forward sa h)
        else Inr h) = Inr h' \<and> shape h' = [B, out_ch, H, W]"
  proof (cases att)
    case True
    from SpatialAttention_forward_shape [OF sh assms(8) assms(3,4)] True show ?thesis
      by (simp add: Block_fields)
  next
    case False
    then show ?thesis using sh by (simp add: Block_fields)
  qed
  then obtain h' where h': "(if attention ?b then
          (case spatial_attention ?b of
             None \<Rightarrow> Inl AttributeError
           | Some sa \<Rightarrow> SpatialAttention_forward sa h)
        else Inr h) = Inr h'" and sh': "shape h' = [B, out_ch, H, W]"
    by blast
  have "\<exists>h''. (if truthy (dropout ?b) then
          (case drop' ?b of
             None \<Rightarrow> Inl AttributeError
           | Some d \<Rightarrow> layer ''drop'' d h')
        else Inr h') = Inr h'' \<and> shape h'' = [B, out_ch, H, W]"
    using sh' by (cases "truthy dr") (simp_all add: Block_fields layer_def dropout_shape)
  then obtain h'' where h'': "(if truthy (dropout ?b) then
          (case drop' ?b of
             None \<Rightarrow> Inl AttributeError
           | Some d \<Rightarrow> layer ''drop'' d h')
        else Inr h') = Inr h''" and sh'': "shape h'' = [B, out_ch, H, W]"
    by blast
  have "\<exists>y. layer ''transform'' (transform ?b) h'' = Inr y \<and>
     shape y = [B, out_ch, if up then 2 * H else H div 2, if up then 2 * W else W div 2]"
    using sh'' assms(3,4,5,8)
    by (cases up) (simp_all add: Block_fields layer_def up_shape down_shape)
  then obtain y where y: "layer ''transform'' (transform ?b) h'' = Inr y"
    "shape y = [B, out_ch, if up then 2 * H else H div 2, if up then 2 * W else W div 2]"
    by blast
  have "Block_forward ?b x t = Inr y"
    by (simp only: Block_forward_def h1(1) h2(1) h3(1) t1(1) t2(1) t3(1) h4(1) h5(1) h6(1) h h' h''
        y(1) bind_exn_simps)
  with y(2) show ?thesis by blast
qed

text \<open>
  Claim C4. For a block that \<open>Block_init\<close> has built, in training or in evaluation mode:
  whenever \<open>forward\<close> returns, what it has computed is the expression of the six steps,
  in that order (activation before normalisation, twice; the gate from the concatenated
  average and maximum through a convolution from 2 channels to 1 and a sigmoid; dropout
  only with a rate; the resampling last). And on a batch that is not empty, a feature map
  \<open>[B, in_ch, H, W]\<close> with a time embedding \<open>[B, time_emb_dim]\<close>, it does return, with
  \<open>out_ch\<close> channels and both spatial sizes doubled (up) or halved (down), provided both
  channel widths are positive, the sizes are positive (at least 2 going down), and a
  training-mode normalisation sees more than one value per channel. The numbers in the
  tensors, and so the range of the sigmoid, are outside this model.
\<close>

theorem Block_forward_order:
  assumes "Block_init in_ch out_ch ted att up dr = Inr self"
  shows "(\<forall>x t y. Block_forward (Block_train mode self) x t = Inr y \<longrightarrow>
            expr y = Block_steps in_ch out_ch ted att up dr mode (expr x) (expr t)) \<and>
         (\<forall>x t B H W.
            shape x = [B, in_ch, H, W] \<and> shape t = [B, ted] \<and> 0 < B \<and> 0 < H \<and> 0 < W \<and>
            0 < in_ch \<and> 0 < out_ch \<and>
            (up \<or> (2 \<le> H \<and> 2 \<le> W)) \<and> (mode \<longrightarrow> B * H * W \<noteq> 1) \<longrightarrow>
            (\<exists>y. Block_forward (Block_train mode self) x t = Inr y \<and>
                 shape y = [B, out_ch, if up then 2 * H else H div 2,
                            if up then 2 * W else W div 2]))"
proof -
  from assms have self: "self = Block_modules in_ch out_ch ted att up dr"
    by (simp add: Block_init_def split: if_splits)
  show ?thesis
    unfolding self
    using Block_forward_expr [of mode in_ch out_ch ted att up dr]
      Block_forward_shape [of _ _ in_ch _ _ _ ted up mode out_ch att dr]
    by blast
qed

theorem Block_forward_order_witness:
  "Block_init 3 4 32 True True (Some (1 / 10)) =
     Inr (Block_modules 3 4 32 True True (Some (1 / 10))) \<and>
   (\<exists>y. Block_forward (Block_train True (Block_modules 3 4 32 True True (Some (1 / 10))))
          (input_x [1, 3, 8, 8]) (input_timestep [1, 32]) = Inr y \<and>
        shape y = [1, 4, 16, 16] \<and>
        expr y = Block_steps 3 4 32 True True (Some (1 / 10)) True (Arg ''x'') (Arg ''timestep''))"
proof -
  have i: "Block_init 3 4 32 True True (Some (1 / 10)) =
      Inr (Block_modules 3 4 32 True True (Some (1 / 10)))"
    by (simp add: Block_init_def dropout_accepted_def truthy_def)
  have s: "shape (input_x [1, 3, 8, 8]) = [1, 3, 8, 8] \<and>
      shape (input_timestep [1, 32]) = [1, 32] \<and> (0::nat) < 1 \<and> (0::nat) < 8 \<and> (0::nat) < 8 \<and>
      (0::nat) < 3 \<and> (0::nat) < 4 \<and>
      (True \<or> ((2::nat) \<le> 8 \<and> (2::nat) \<le> 8)) \<and> (True \<longrightarrow> (1::nat) * 8 * 8 \<noteq> 1)"
    by (simp add: input_x_def input_timestep_def)
  from Block_forward_order [OF i, of True] s obtain y where
    y: "Block_forward (Block_train True (Block_modules 3 4 32 True True (Some (1 / 10))))
          (input_x [1, 3, 8, 8]) (input_timestep [1, 32]) = Inr y"
    "shape y = [1, 4, if True then 2 * 8 else 8 div 2, if True then 2 * 8 else 8 div 2]"
    by blast
  from Block_forward_order [OF i, of True] y(1) have
    "expr y = Block_steps 3 4 32 True True (Some (1 / 10)) True
       (expr (input_x [1, 3, 8, 8])) (expr (input_timestep [1, 32]))"
    by blast
  with i y show ?thesis by (simp add: input_x_def input_timestep_def)
qed

end
